theory Spec2Isabelle
  imports Main
begin

section \<open>JavaScript strings\<close>

text \<open>
  A JavaScript string is modelled as a \<^typ>\<open>string\<close>: one \<^typ>\<open>char\<close> per code unit,
  restricted to the code units below 256. A value that may be \<open>null\<close> or
  \<open>undefined\<close> is an \<open>option\<close>; \<open>None\<close> stands for both, since the code only ever
  tests such values for truthiness.
\<close>

definition startsWith :: "string \<Rightarrow> string \<Rightarrow> bool" where
  \<comment> \<open>\<open>s.startsWith(p)\<close>\<close>
  "startsWith s p = (take (length p) s = p)"

definition truthy :: "string option \<Rightarrow> bool" where
  \<comment> \<open>a string-or-absent value used as a condition: absent and the empty string are falsy\<close>
  "truthy v = (case v of None \<Rightarrow> False | Some s \<Rightarrow> s \<noteq> [])"

definition orElse :: "string option \<Rightarrow> string \<Rightarrow> string" where
  \<comment> \<open>\<open>v || d\<close> for a string-or-absent \<open>v\<close> and a string \<open>d\<close>\<close>
  "orElse v d = (case v of None \<Rightarrow> d | Some s \<Rightarrow> if s = [] then d else s)"

definition isWhiteSpace :: "char \<Rightarrow> bool" where
  \<comment> \<open>the white space and line terminators of ECMAScript below code unit 256\<close>
  "isWhiteSpace c = (c \<in> set [CHR 0x09, CHR 0x0A, CHR 0x0B, CHR 0x0C, CHR 0x0D, CHR 0x20, CHR 0xA0])"

definition trim :: "string \<Rightarrow> string" where
  \<comment> \<open>\<open>s.trim()\<close>\<close>
  "trim s = rev (dropWhile isWhiteSpace (rev (dropWhile isWhiteSpace s)))"

fun firstMatch :: "string list \<Rightarrow> string \<Rightarrow> string option" where
  \<comment> \<open>the first alternative of \<open>p1|p2|...\<close> (literal alternatives) that matches at the start of the text\<close>
  "firstMatch [] s = None"
| "firstMatch (p # ps) s = (if p \<noteq> [] \<and> startsWith s p then Some p else firstMatch ps s)"

function replaceGlobal :: "string list \<Rightarrow> string \<Rightarrow> string \<Rightarrow> string" where
  \<comment> \<open>\<open>s.replace(/p1|p2|.../g, r)\<close> for literal alternatives: leftmost matches, left to right,
      the scan resuming after each match\<close>
  "replaceGlobal ps r [] = []"
| "replaceGlobal ps r (c # cs) =
     (case firstMatch ps (c # cs) of
        None \<Rightarrow> c # replaceGlobal ps r cs
      | Some p \<Rightarrow> r @ replaceGlobal ps r (drop (length p) (c # cs)))"
  by pat_completeness auto


fun includesStr :: "string \<Rightarrow> string \<Rightarrow> bool" where
  \<comment> \<open>\<open>s.includes(p)\<close>\<close>
  "includesStr [] p = (p = [])"
| "includesStr (c # cs) p = (startsWith (c # cs) p \<or> includesStr cs p)"

fun join :: "string \<Rightarrow> string list \<Rightarrow> string" where
  \<comment> \<open>\<open>xs.join(sep)\<close> on an array of strings\<close>
  "join sep [] = []"
| "join sep [x] = x"
| "join sep (x # y # ys) = x @ sep @ join sep (y # ys)"

definition matchBraces :: "string \<Rightarrow> string option" where
  \<comment> \<open>\<open>s.match(/\{[\s\S]*\}/)\<close>: the leftmost match starts at the first \<open>{\<close>; the greedy
      star runs to the last \<open>}\<close> of the text. No match when no \<open>}\<close> follows the first \<open>{\<close>.\<close>
  "matchBraces s =
     (case dropWhile (\<lambda>c. c \<noteq> CHR ''{'') s of
        [] \<Rightarrow> None
      | b # rest \<Rightarrow>
          if CHR ''}'' \<in> set rest
          then Some (b # rev (dropWhile (\<lambda>c. c \<noteq> CHR ''}'') (rev rest)))
          else None)"

datatype js_error =
    Error string
  | TypeError string
  | ReferenceError string
  | SyntaxError string

fun message :: "js_error \<Rightarrow> string" where
  "message (Error m) = m"
| "message (TypeError m) = m"
| "message (ReferenceError m) = m"
| "message (SyntaxError m) = m"

section \<open>Username normalizer (server.js, convertUsernameToUrl)\<close>

definition convertUsernameToUrl :: "string \<Rightarrow> string option \<Rightarrow> string" where
  "convertUsernameToUrl platform username =
     (case username of
        None \<Rightarrow> []
      | Some u \<Rightarrow>
          if u = [] then []
          else if startsWith u ''http://'' \<or> startsWith u ''https://'' then u
          else if platform = ''linkedin'' then ''https://linkedin.com/in/'' @ u
          else if platform = ''github'' then ''https://github.com/'' @ u
          else u)"

section \<open>Theme table (server.js, lines 45-82)\<close>

record theme =
  name :: string
  background :: string
  primaryColor :: string
  secondaryColor :: string
  card_style :: string  \<comment> \<open>the field \<open>card\<close>\<close>
  font :: string
  buttonStyle :: string

definition Developer_Dark :: theme where
  "Developer_Dark = \<lparr> name = ''Developer Dark'', background = ''bg-gray-900 text-white'',
     primaryColor = ''bg-blue-500'', secondaryColor = ''text-blue-400'',
     card_style = ''bg-gray-800'', font = ''font-mono'',
     buttonStyle = ''bg-blue-600 hover:bg-blue-700'' \<rparr>"

definition Designer_Light :: theme where
  "Designer_Light = \<lparr> name = ''Designer Light'', background = ''bg-white text-gray-800'',
     primaryColor = ''bg-pink-500'', secondaryColor = ''text-pink-500'',
     card_style = ''bg-gray-50'', font = ''font-sans'',
     buttonStyle = ''bg-pink-600 hover:bg-pink-700'' \<rparr>"

definition Data_Green :: theme where
  "Data_Green = \<lparr> name = ''Data Green'', background = ''bg-gray-800 text-gray-100'',
     primaryColor = ''bg-green-500'', secondaryColor = ''text-green-400'',
     card_style = ''bg-gray-700'', font = ''font-sans'',
     buttonStyle = ''bg-green-600 hover:bg-green-700'' \<rparr>"

definition Professional_Blue :: theme where
  "Professional_Blue = \<lparr> name = ''Professional Blue'', background = ''bg-gray-100 text-gray-900'',
     primaryColor = ''bg-indigo-600'', secondaryColor = ''text-indigo-500'',
     card_style = ''bg-white'', font = ''font-sans'',
     buttonStyle = ''bg-indigo-600 hover:bg-indigo-700'' \<rparr>"

definition themes :: "(string \<times> theme) list" where
  \<comment> \<open>the table of server.js; the classifier of src/unnamed/part_000 declares the same one\<close>
  "themes =
     [(''Software Developer'', Developer_Dark),
      (''Graphic Designer'', Designer_Light),
      (''Data Scientist'', Data_Green),
      (''Default'', Professional_Blue)]"

definition themes_gp :: "(string \<times> theme) list" where
  \<comment> \<open>the table of generate-portfolio.js (lines 97-102): its Default entry has another button style\<close>
  "themes_gp =
     [(''Software Developer'', Developer_Dark),
      (''Graphic Designer'', Designer_Light),
      (''Data Scientist'', Data_Green),
      (''Default'', Professional_Blue \<lparr> buttonStyle := ''bg-indigo-700 hover:bg-indigo-800'' \<rparr>)]"

text \<open>
  Both tables are object literals, so a property read \<open>themes[k]\<close> finds the table's own
  entries first and then the members every object inherits from \<open>Object.prototype\<close>.
  These members (functions, and the prototype object itself under \<open>__proto__\<close>) are all
  truthy values.
\<close>

definition objectPrototypeKeys :: "string list" where
  "objectPrototypeKeys =
     [''constructor'', ''__defineGetter__'', ''__defineSetter__'', ''hasOwnProperty'',
      ''__lookupGetter__'', ''__lookupSetter__'', ''isPrototypeOf'', ''propertyIsEnumerable'',
      ''toString'', ''valueOf'', ''__proto__'', ''toLocaleString'']"

datatype theme_value =
    ThemeObject theme  \<comment> \<open>a theme object\<close>
  | PrototypeMember string  \<comment> \<open>the member of \<open>Object.prototype\<close> of that name\<close>
  | NoTheme  \<comment> \<open>\<open>undefined\<close>\<close>

definition property :: "(string \<times> theme) list \<Rightarrow> string \<Rightarrow> theme_value" where
  \<comment> \<open>\<open>tbl[k]\<close>\<close>
  "property tbl k =
     (case map_of tbl k of
        Some t \<Rightarrow> ThemeObject t
      | None \<Rightarrow> if k \<in> set objectPrototypeKeys then PrototypeMember k else NoTheme)"

definition selectTheme :: "(string \<times> theme) list \<Rightarrow> string \<Rightarrow> theme_value" where
  \<comment> \<open>\<open>tbl[profession] || tbl['Default']\<close>\<close>
  "selectTheme tbl profession =
     (case property tbl profession of
        NoTheme \<Rightarrow> property tbl ''Default''
      | v \<Rightarrow> v)"

section \<open>Profile data (the keys of the extraction prompt)\<close>

record personalInfo =
  pi_name :: "string option"
  pi_email :: "string option"
  pi_phone :: "string option"
  pi_website :: "string option"
  pi_linkedin :: "string option"
  pi_github :: "string option"

record experienceEntry =
  company :: "string option"
  role :: "string option"
  dates :: "string option"
  description :: "string list option"

record projectEntry =
  title :: "string option"
  proj_description :: "string option"
  link :: "string option"

record educationEntry =
  institution :: "string option"
  degree :: "string option"
  edu_dates :: "string option"

record profile =
  personalInfo :: "personalInfo option"
  summary :: "string option"
  skills :: "string list option"
  experience :: "experienceEntry list option"
  projects :: "projectEntry list option"
  education :: "educationEntry list option"

section \<open>The external collaborators\<close>

text \<open>
  The generative model, the JSON parser, the identifier generator and the two fixed
  instruction texts are parameters. The model is an oracle: its reply to the \<open>n\<close>-th
  call of a run, given the prompt, is either a thrown error or the response text. Every
  function that calls the model takes the number of calls made so far and returns the
  new number. \<open>JSON_parse\<close> gives \<open>Inl\<close> of the error where \<open>JSON.parse\<close> throws, and
  otherwise the parsed object, read at the type of the data it is used as.
\<close>

datatype model_reply = Throws js_error | Returns string

record 'd externals =
  generateContent :: "nat \<Rightarrow> string \<Rightarrow> model_reply"
  JSON_parse :: "string \<Rightarrow> js_error + 'd"
  extractionPrompt :: string
  classificationPrompt :: string
  uuidv4 :: "nat \<Rightarrow> string"

section \<open>Resume extractor\<close>

definition cleanResponse :: "string \<Rightarrow> string" where
  \<comment> \<open>server.js line 124 and part_000 line 155:
      \<open>text.replace(/```json/g, '').replace(/```/g, '').trim()\<close>\<close>
  "cleanResponse text = trim (replaceGlobal [''```''] [] (replaceGlobal [''```json''] [] text))"

definition extractJsonText :: "string \<Rightarrow> string" where
  \<comment> \<open>server.js lines 124-132 and part_000 lines 155-162: the text handed to \<open>JSON.parse\<close>\<close>
  "extractJsonText text =
     (let jsonText = cleanResponse text
      in if \<not> startsWith jsonText ''{''
         then (case matchBraces jsonText of Some m \<Rightarrow> m | None \<Rightarrow> jsonText)
         else jsonText)"

text \<open>
  The specification asks for the first balanced \<open>{...}\<close> span. The following definition
  follows those words, to be compared with \<open>matchBraces\<close>: from the first \<open>{\<close>, up to
  the \<open>}\<close> that closes it.
\<close>

fun balancedPrefix :: "nat \<Rightarrow> string \<Rightarrow> string option" where
  \<comment> \<open>the prefix of the text that ends where the given number of open braces is closed\<close>
  "balancedPrefix depth [] = None"
| "balancedPrefix depth (c # cs) =
     (if c = CHR ''{'' then map_option ((#) c) (balancedPrefix (Suc depth) cs)
      else if c = CHR ''}'' then
        (if depth \<le> 1 then Some [c] else map_option ((#) c) (balancedPrefix (depth - 1) cs))
      else map_option ((#) c) (balancedPrefix depth cs))"

definition spec_firstBalancedSpan :: "string \<Rightarrow> string option" where
  "spec_firstBalancedSpan s = balancedPrefix 0 (dropWhile (\<lambda>c. c \<noteq> CHR ''{'') s)"

definition parseResumeWithAI_catch :: "js_error \<Rightarrow> js_error" where
  \<comment> \<open>The catch block of server.js (lines 135-139). Its second statement reads
      \<open>response\<close>, a \<open>const\<close> of the try block that is not in scope here, so the block
      ends with a ReferenceError before it reaches its own \<open>throw\<close>.\<close>
  "parseResumeWithAI_catch e = ReferenceError ''response is not defined''"

definition parseResumeWithAI_fn_catch :: "js_error \<Rightarrow> js_error" where
  \<comment> \<open>the catch block of part_000 (lines 165-168)\<close>
  "parseResumeWithAI_fn_catch e = Error ''AI model returned an invalid JSON format.''"

definition parseResumeWithAI_try ::
  "'d externals \<Rightarrow> nat \<Rightarrow> string \<Rightarrow> js_error + 'd" where
  \<comment> \<open>the try block, the same in both files\<close>
  "parseResumeWithAI_try ext n resumeText =
     (case generateContent ext n
             (extractionPrompt ext @ ''\<newline>\<newline>--- RESUME TEXT ---\<newline>\<newline>'' @ resumeText) of
        Throws e \<Rightarrow> Inl e
      | Returns text \<Rightarrow>
          JSON_parse ext (extractJsonText text))"

definition parseResumeWithAI ::
  "'d externals \<Rightarrow> nat \<Rightarrow> string \<Rightarrow> (js_error + 'd) \<times> nat" where
  \<comment> \<open>server.js, lines 100-140\<close>
  "parseResumeWithAI ext n resumeText =
     (case parseResumeWithAI_try ext n resumeText of
        Inl e \<Rightarrow> (Inl (parseResumeWithAI_catch e), Suc n)
      | Inr d \<Rightarrow> (Inr d, Suc n))"

definition parseResumeWithAI_fn ::
  "'d externals \<Rightarrow> nat \<Rightarrow> string \<Rightarrow> (js_error + 'd) \<times> nat" where
  \<comment> \<open>src/unnamed/part_000, lines 134-169\<close>
  "parseResumeWithAI_fn ext n resumeText =
     (case parseResumeWithAI_try ext n resumeText of
        Inl e \<Rightarrow> (Inl (parseResumeWithAI_fn_catch e), Suc n)
      | Inr d \<Rightarrow> (Inr d, Suc n))"

section \<open>Profession classifier\<close>

definition professionalSummary :: "profile \<Rightarrow> string" where
  "professionalSummary parsedData =
     (let skillsArray = (case skills parsedData of Some xs \<Rightarrow> xs | None \<Rightarrow> [])
      in ''Summary: '' @ orElse (summary parsedData) [] @ ''. Skills: ''
           @ join '', '' skillsArray @ ''.'')"

definition classifyProfessionAndSelectTheme ::
  "profile externals \<Rightarrow> nat \<Rightarrow> profile \<Rightarrow> (js_error + theme_value) \<times> nat" where
  \<comment> \<open>server.js, lines 141-164: \<open>themes\<close> is the table of the module, in scope in the
      catch block\<close>
  "classifyProfessionAndSelectTheme ext n parsedData =
     (case generateContent ext n
             (classificationPrompt ext @ ''\<newline>\<newline>'' @ professionalSummary parsedData) of
        Throws e \<Rightarrow> (Inr (property themes ''Default''), Suc n)
      | Returns text \<Rightarrow> (Inr (selectTheme themes (trim text)), Suc n))"

definition classifyProfessionAndSelectTheme_fn ::
  "profile externals \<Rightarrow> nat \<Rightarrow> profile \<Rightarrow> (js_error + theme_value) \<times> nat" where
  \<comment> \<open>part_000, lines 171-234: \<open>themes\<close> is a \<open>const\<close> of the try block, and the file has no
      other binding of that name, so the catch block's \<open>themes['Default']\<close> throws a
      ReferenceError\<close>
  "classifyProfessionAndSelectTheme_fn ext n parsedData =
     (case generateContent ext n
             (classificationPrompt ext @ ''\<newline>\<newline>'' @ professionalSummary parsedData) of
        Throws e \<Rightarrow> (Inl (ReferenceError ''themes is not defined''), Suc n)
      | Returns text \<Rightarrow> (Inr (selectTheme themes (trim text)), Suc n))"

section \<open>The in-memory store of server.js\<close>

record portfolio =
  data :: profile
  theme :: theme_value
  profilePictureUrl :: "string option"
  createdAt :: "nat option"
  updatedAt :: "nat option"

text \<open>
  \<open>portfolios\<close> is an object literal used as a dictionary. A read \<open>portfolios[id]\<close>
  finds an own property, or else a property inherited through the prototype chain; a
  write \<open>portfolios[id] = r\<close> creates or replaces an own property, except under the
  key \<open>__proto__\<close>, where it replaces the prototype of \<open>portfolios\<close> by \<open>r\<close>. The store
  is therefore the own properties together with the record that was installed as
  prototype, if any. The routes only test what they read for truthiness and read the
  five fields of a record, so a value that is not a stored record is kept as
  \<open>OtherTruthy\<close> (it has none of the five fields) or \<open>Falsy\<close>.
\<close>

record store =
  own :: "string \<rightharpoonup> portfolio"
  proto :: "portfolio option"

datatype slot = Stored portfolio | OtherTruthy | Falsy

definition emptyStore :: store where
  \<comment> \<open>\<open>const portfolios = {}\<close>\<close>
  "emptyStore = \<lparr> own = Map.empty, proto = None \<rparr>"

definition inheritedSlot :: "portfolio \<Rightarrow> string \<Rightarrow> slot" where
  \<comment> \<open>a field of the record installed as prototype, read through \<open>portfolios[k]\<close>\<close>
  "inheritedSlot p k =
     (if k = ''data'' then OtherTruthy
      else if k = ''theme'' then (case theme p of NoTheme \<Rightarrow> Falsy | _ \<Rightarrow> OtherTruthy)
      else if k = ''profilePictureUrl''
        then (if truthy (profilePictureUrl p) then OtherTruthy else Falsy)
      else if k = ''createdAt'' then (case createdAt p of None \<Rightarrow> Falsy | Some _ \<Rightarrow> OtherTruthy)
      else if k = ''updatedAt'' then (case updatedAt p of None \<Rightarrow> Falsy | Some _ \<Rightarrow> OtherTruthy)
      else Falsy)"

definition getPortfolio :: "store \<Rightarrow> string \<Rightarrow> slot" where
  \<comment> \<open>\<open>portfolios[id]\<close>\<close>
  "getPortfolio st k =
     (case own st k of
        Some r \<Rightarrow> Stored r
      | None \<Rightarrow>
          if k = ''__proto__'' then (case proto st of Some p \<Rightarrow> Stored p | None \<Rightarrow> OtherTruthy)
          else if k \<in> set objectPrototypeKeys then OtherTruthy
          else (case proto st of Some p \<Rightarrow> inheritedSlot p k | None \<Rightarrow> Falsy))"

definition setPortfolio :: "store \<Rightarrow> string \<Rightarrow> portfolio \<Rightarrow> store" where
  \<comment> \<open>\<open>portfolios[id] = r\<close>\<close>
  "setPortfolio st k r =
     (if k = ''__proto__'' then st \<lparr> proto := Some r \<rparr>
      else st \<lparr> own := (own st)(k \<mapsto> r) \<rparr>)"

record server =
  portfolios :: store
  modelCalls :: nat  \<comment> \<open>calls made to the external model so far\<close>
  uuidsIssued :: nat  \<comment> \<open>identifiers generated so far\<close>

section \<open>The routes of server.js\<close>

datatype response_body =
    ErrorJson string  \<comment> \<open>\<open>{ error }\<close>\<close>
  | PortfolioJson string "profile option" theme_value "string option"
      \<comment> \<open>\<open>{ portfolioId, portfolioData, theme, profilePictureUrl }\<close>\<close>
  | UpdatedJson string  \<comment> \<open>\<open>{ success: true, portfolioId }\<close>\<close>
  | HealthJson  \<comment> \<open>\<open>{ status: 'OK', ... }\<close>\<close>
  | Html string

record response =
  status :: nat
  body :: response_body

datatype pdf_result = PdfThrows js_error | PdfText "string option"
  \<comment> \<open>what \<open>pdfParse\<close> does on the uploaded bytes: it throws, or yields \<open>data.text\<close>\<close>

record upload =
  resume :: "pdf_result option"  \<comment> \<open>\<open>req.files.resume\<close>, through \<open>pdfParse\<close>\<close>
  photo :: "(string \<times> string) option"  \<comment> \<open>mimetype and base64 text of \<open>req.files.photo\<close>\<close>

record edit_body =
  body_portfolioData :: "profile option"
  body_theme :: "theme option"
  body_profilePictureUrl :: "string option"

definition normalizeLinks :: "personalInfo \<Rightarrow> personalInfo" where
  \<comment> \<open>the two guarded assignments that each of the three routes repeats\<close>
  "normalizeLinks info =
     (let info1 = (if truthy (pi_linkedin info)
                   then info \<lparr> pi_linkedin := Some (convertUsernameToUrl ''linkedin'' (pi_linkedin info)) \<rparr>
                   else info)
      in if truthy (pi_github info1)
         then info1 \<lparr> pi_github := Some (convertUsernameToUrl ''github'' (pi_github info1)) \<rparr>
         else info1)"

definition placeholderPhoto :: "personalInfo \<Rightarrow> string" where
  "placeholderPhoto info =
     ''https://placehold.co/150x150/222/fff?text=''
       @ (case pi_name info of Some (c # cs) \<Rightarrow> [c] | _ \<Rightarrow> ''P'')"

definition photoUrlOf :: "personalInfo \<Rightarrow> (string \<times> string) option \<Rightarrow> string" where
  "photoUrlOf info ph =
     (case ph of
        None \<Rightarrow> placeholderPhoto info
      | Some (mimetype, base64) \<Rightarrow> ''data:'' @ mimetype @ '';base64,'' @ base64)"

definition themeOfBody :: "theme option \<Rightarrow> theme_value" where
  "themeOfBody t = (case t of None \<Rightarrow> NoTheme | Some th \<Rightarrow> ThemeObject th)"

definition noPersonalInfo :: js_error where
  \<comment> \<open>reading \<open>.linkedin\<close> of an absent \<open>personalInfo\<close>\<close>
  "noPersonalInfo = TypeError ''Cannot read properties of undefined (reading 'linkedin')''"

definition noPortfolioData :: js_error where
  \<comment> \<open>reading \<open>.personalInfo\<close> of an absent \<open>portfolioData\<close>\<close>
  "noPortfolioData = TypeError ''Cannot read properties of undefined (reading 'personalInfo')''"

definition generate_from_resume_try ::
  "profile externals \<Rightarrow> nat \<Rightarrow> server \<Rightarrow> upload \<Rightarrow> pdf_result \<Rightarrow> (js_error + response) \<times> server" where
  \<comment> \<open>the try block of the route, lines 170-212; \<open>Inl\<close> is an exception on its way to the catch\<close>
  "generate_from_resume_try ext now sv req pdf =
     (case pdf of
        PdfThrows e \<Rightarrow> (Inl e, sv)
      | PdfText None \<Rightarrow>
          (Inr \<lparr> status = 400, body = ErrorJson
             ''Could not extract text from the PDF. The file may be corrupted or scanned as an image.'' \<rparr>, sv)
      | PdfText (Some resumeText) \<Rightarrow>
          if resumeText = [] \<or> length (trim resumeText) = 0
          then (Inr \<lparr> status = 400, body = ErrorJson
             ''Could not extract text from the PDF. The file may be corrupted or scanned as an image.'' \<rparr>, sv)
          else
            (case parseResumeWithAI ext (modelCalls sv) resumeText of
               (Inl e, n1) \<Rightarrow> (Inl e, sv \<lparr> modelCalls := n1 \<rparr>)
             | (Inr parsedData, n1) \<Rightarrow>
                 (case classifyProfessionAndSelectTheme ext n1 parsedData of
                    (Inl e, n2) \<Rightarrow> (Inl e, sv \<lparr> modelCalls := n2 \<rparr>)
                  | (Inr selectedTheme, n2) \<Rightarrow>
                      (case personalInfo parsedData of
                         None \<Rightarrow> (Inl noPersonalInfo, sv \<lparr> modelCalls := n2 \<rparr>)
                       | Some info \<Rightarrow>
                           (let info' = normalizeLinks info;
                                parsedData' = parsedData \<lparr> personalInfo := Some info' \<rparr>;
                                photoUrl = photoUrlOf info' (photo req);
                                portfolioId = uuidv4 ext (uuidsIssued sv)
                            in (Inr \<lparr> status = 200, body =
                                     PortfolioJson portfolioId (Some parsedData') selectedTheme (Some photoUrl) \<rparr>,
                                sv \<lparr> portfolios := setPortfolio (portfolios sv) portfolioId
                                       \<lparr> data = parsedData', theme = selectedTheme,
                                         profilePictureUrl = Some photoUrl,
                                         createdAt = Some now, updatedAt = None \<rparr>,
                                     modelCalls := n2,
                                     uuidsIssued := Suc (uuidsIssued sv) \<rparr>))))))"

definition generate_from_resume ::
  "profile externals \<Rightarrow> nat \<Rightarrow> server \<Rightarrow> upload \<Rightarrow> response \<times> server" where
  \<comment> \<open>\<open>app.post('/api/generate-from-resume')\<close>, lines 166-225\<close>
  "generate_from_resume ext now sv req =
     (case resume req of
        None \<Rightarrow> (\<lparr> status = 400, body = ErrorJson ''Resume file (PDF) is required.'' \<rparr>, sv)
      | Some pdf \<Rightarrow>
          (case generate_from_resume_try ext now sv req pdf of
             (Inr res, sv') \<Rightarrow> (res, sv')
           | (Inl error, sv') \<Rightarrow>
               if message error \<noteq> [] \<and> includesStr (message error) ''bad XRef entry''
               then (\<lparr> status = 400, body = ErrorJson
                  ''The PDF file appears to be corrupted or invalid. Please try uploading a different PDF file.'' \<rparr>, sv')
               else (\<lparr> status = 500, body = ErrorJson
                  ''An unexpected error occurred while generating the portfolio. Please try again.'' \<rparr>, sv')))"

definition update_portfolio ::
  "nat \<Rightarrow> server \<Rightarrow> string \<Rightarrow> edit_body \<Rightarrow> (js_error + response) \<times> server" where
  \<comment> \<open>\<open>app.post('/api/update-portfolio/:id')\<close>, lines 227-254. The handler is synchronous
      and has no try block: \<open>Inl\<close> is an exception that leaves it.\<close>
  "update_portfolio now sv ident b =
     (case getPortfolio (portfolios sv) ident of
        Falsy \<Rightarrow> (Inr \<lparr> status = 404, body = ErrorJson ''Portfolio not found'' \<rparr>, sv)
      | found \<Rightarrow>
          (case body_portfolioData b of
             None \<Rightarrow> (Inl noPortfolioData, sv)
           | Some portfolioData \<Rightarrow>
               (case personalInfo portfolioData of
                  None \<Rightarrow> (Inl noPersonalInfo, sv)
                | Some info \<Rightarrow>
                    (let portfolioData' = portfolioData \<lparr> personalInfo := Some (normalizeLinks info) \<rparr>;
                         spread = (case found of Stored r \<Rightarrow> createdAt r | _ \<Rightarrow> None)
                     in (Inr \<lparr> status = 200, body = UpdatedJson ident \<rparr>,
                         sv \<lparr> portfolios := setPortfolio (portfolios sv) ident
                                \<lparr> data = portfolioData', theme = themeOfBody (body_theme b),
                                  profilePictureUrl = body_profilePictureUrl b,
                                  createdAt = spread, updatedAt = Some now \<rparr> \<rparr>)))))"

definition create_manual_portfolio ::
  "profile externals \<Rightarrow> nat \<Rightarrow> server \<Rightarrow> edit_body option \<Rightarrow> (string \<times> string) option
     \<Rightarrow> response \<times> server" where
  \<comment> \<open>\<open>app.post('/api/create-manual-portfolio')\<close>, lines 256-296; the photo is \<open>req.file\<close>\<close>
  "create_manual_portfolio ext now sv reqBody file =
     (let failed = (\<lparr> status = 500, body = ErrorJson
            ''An unexpected error occurred while creating the portfolio. Please try again.'' \<rparr>, sv)
      in case reqBody of
           None \<Rightarrow> failed
         | Some b \<Rightarrow>
             (case body_portfolioData b of
                None \<Rightarrow> failed
              | Some portfolioData \<Rightarrow>
                  (case personalInfo portfolioData of
                     None \<Rightarrow> failed
                   | Some info \<Rightarrow>
                       (let info' = normalizeLinks info;
                            portfolioData' = portfolioData \<lparr> personalInfo := Some info' \<rparr>;
                            photoUrl = photoUrlOf info' file;
                            portfolioId = uuidv4 ext (uuidsIssued sv)
                        in (\<lparr> status = 200, body = PortfolioJson portfolioId (Some portfolioData')
                                 (themeOfBody (body_theme b)) (Some photoUrl) \<rparr>,
                            sv \<lparr> portfolios := setPortfolio (portfolios sv) portfolioId
                                   \<lparr> data = portfolioData', theme = themeOfBody (body_theme b),
                                     profilePictureUrl = Some photoUrl,
                                     createdAt = Some now, updatedAt = None \<rparr>,
                                 uuidsIssued := Suc (uuidsIssued sv) \<rparr>)))))"

section \<open>The serverless handler of src/unnamed/part_000\<close>

record row =
  share_id :: string
  portfolio_data :: "profile option"
  profile_picture_url :: "string option"
  selected_theme :: "string option"

record deployment =
  table :: "row list"  \<comment> \<open>the hosted table \<open>portfolios\<close>\<close>
  calls :: nat  \<comment> \<open>calls made to the external model so far\<close>
  ids :: nat  \<comment> \<open>identifiers generated so far\<close>

record request_fn = edit_body +
  req_type :: "string option"
  req_resumeText :: "string option"

record event_fn =
  event_method :: "string option"  \<comment> \<open>\<open>event.method\<close>, the field this file reads\<close>
  parsed_body :: "js_error + request_fn"  \<comment> \<open>\<open>JSON.parse(event.body)\<close>\<close>

definition themeName :: "theme_value \<Rightarrow> js_error + string option" where
  \<comment> \<open>\<open>t.name\<close>: a theme's name; the name of an inherited function (the constructor is
      \<open>Object\<close>); nothing for the prototype object; a TypeError on \<open>undefined\<close>\<close>
  "themeName t =
     (case t of
        ThemeObject th \<Rightarrow> Inr (Some (name th))
      | PrototypeMember k \<Rightarrow>
          Inr (if k = ''__proto__'' then None
               else if k = ''constructor'' then Some ''Object'' else Some k)
      | NoTheme \<Rightarrow> Inl (TypeError ''Cannot read properties of undefined (reading 'name')''))"

definition insertRow :: "string option \<Rightarrow> row \<Rightarrow> deployment \<Rightarrow> (string + unit) \<times> deployment" where
  \<comment> \<open>the insert into the hosted table: it reports the given error and stores nothing,
      or stores the row\<close>
  "insertRow dbError r d =
     (case dbError of
        Some m \<Rightarrow> (Inl m, d)
      | None \<Rightarrow> (Inr (), d \<lparr> table := table d @ [r] \<rparr>))"

definition handler_fn_try ::
  "profile externals \<Rightarrow> string option \<Rightarrow> deployment \<Rightarrow> event_fn \<Rightarrow> (js_error + response) \<times> deployment" where
  \<comment> \<open>the try block of \<open>exports.handler\<close>, lines 16-123\<close>
  "handler_fn_try ext dbError d event =
     (if event_method event = Some ''GET'' then (Inr \<lparr> status = 200, body = HealthJson \<rparr>, d)
      else if event_method event \<noteq> Some ''POST''
        then (Inr \<lparr> status = 405, body = ErrorJson ''Method not allowed'' \<rparr>, d)
      else
        (case parsed_body event of
           Inl e \<Rightarrow> (Inl e, d)
         | Inr b \<Rightarrow>
             if req_type b = Some ''manual'' then
               (let portfolioId = uuidv4 ext (ids d);
                    d1 = d \<lparr> ids := Suc (ids d) \<rparr>
                in case themeName (themeOfBody (body_theme b)) of
                     Inl e \<Rightarrow> (Inl e, d1)
                   | Inr nm \<Rightarrow>
                       (case insertRow dbError
                               \<lparr> share_id = portfolioId, portfolio_data = body_portfolioData b,
                                 profile_picture_url = body_profilePictureUrl b,
                                 selected_theme = nm \<rparr> d1 of
                          (Inl m, d2) \<Rightarrow>
                            (Inr \<lparr> status = 500, body = ErrorJson ''Failed to save portfolio'' \<rparr>, d2)
                        | (Inr u, d2) \<Rightarrow>
                            (Inr \<lparr> status = 200, body = PortfolioJson portfolioId (body_portfolioData b)
                                   (themeOfBody (body_theme b)) (body_profilePictureUrl b) \<rparr>, d2)))
             else if req_type b = Some ''ai'' then
               (case parseResumeWithAI_fn ext (calls d) (orElse (req_resumeText b) []) of
                  (Inl e, n1) \<Rightarrow> (Inl e, d \<lparr> calls := n1 \<rparr>)
                | (Inr parsedData, n1) \<Rightarrow>
                    (case classifyProfessionAndSelectTheme_fn ext n1 parsedData of
                       (Inl e, n2) \<Rightarrow> (Inl e, d \<lparr> calls := n2 \<rparr>)
                     | (Inr selectedTheme, n2) \<Rightarrow>
                         (let portfolioId = uuidv4 ext (ids d);
                              d1 = d \<lparr> calls := n2, ids := Suc (ids d) \<rparr>;
                              pic = orElse (body_profilePictureUrl b) []
                          in case themeName selectedTheme of
                               Inl e \<Rightarrow> (Inl e, d1)
                             | Inr nm \<Rightarrow>
                                 (case insertRow dbError
                                         \<lparr> share_id = portfolioId, portfolio_data = Some parsedData,
                                           profile_picture_url = Some pic,
                                           selected_theme = nm \<rparr> d1 of
                                    (Inl m, d2) \<Rightarrow>
                                      (Inr \<lparr> status = 500, body = ErrorJson ''Failed to save portfolio'' \<rparr>, d2)
                                  | (Inr u, d2) \<Rightarrow>
                                      (Inr \<lparr> status = 200, body = PortfolioJson portfolioId (Some parsedData)
                                             selectedTheme (Some pic) \<rparr>, d2)))))
             else (Inr \<lparr> status = 400, body = ErrorJson ''Invalid request type'' \<rparr>, d)))"

definition handler_fn ::
  "profile externals \<Rightarrow> string option \<Rightarrow> deployment \<Rightarrow> event_fn \<Rightarrow> response \<times> deployment" where
  \<comment> \<open>\<open>exports.handler\<close> of part_000, lines 15-131\<close>
  "handler_fn ext dbError d event =
     (case handler_fn_try ext dbError d event of
        (Inr res, d') \<Rightarrow> (res, d')
      | (Inl error, d') \<Rightarrow> (\<lparr> status = 500, body = ErrorJson ''Internal server error'' \<rparr>, d'))"

section \<open>The serverless handler of generate-portfolio.js\<close>

text \<open>
  This variant asks the model for other keys and only ever touches the \<open>profession\<close>
  of the data, so the other keys are one field of an arbitrary type.
\<close>

record 'a portfolioData_gp =
  other_keys :: 'a
  profession :: "string option"

record 'a row_gp =
  gp_portfolio_data :: "'a portfolioData_gp"
  gp_selected_theme :: theme_value

record 'a deployment_gp =
  gp_table :: "'a row_gp list"
  gp_calls :: nat

record 'a body_gp =
  body_resumeText :: "string option"
  body_manualData :: "'a portfolioData_gp option"

record 'a event_gp =
  httpMethod :: "string option"
  contentType :: "string option"  \<comment> \<open>\<open>event.headers['content-type']\<close>\<close>
  pdf :: pdf_result  \<comment> \<open>\<open>pdfParse\<close> of the body's bytes\<close>
  json :: "js_error + 'a body_gp"  \<comment> \<open>\<open>JSON.parse(event.body)\<close>\<close>

datatype 'a response_gp =
    StatusOk  \<comment> \<open>200 \<open>{ status: 'OK' }\<close>\<close>
  | Failure nat string  \<comment> \<open>a status code and \<open>{ error }\<close>\<close>
  | Created "'a row_gp" theme_value  \<comment> \<open>200 \<open>{ portfolio, theme }\<close>\<close>

definition generateFromResume ::
  "'a portfolioData_gp externals \<Rightarrow> nat \<Rightarrow> string \<Rightarrow> (js_error + 'a portfolioData_gp) \<times> nat" where
  \<comment> \<open>lines 75-90; the two prompts are the texts in front of the resume text\<close>
  "generateFromResume ext n resumeText =
     (case generateContent ext n (extractionPrompt ext @ resumeText) of
        Throws e \<Rightarrow> (Inl e, Suc n)
      | Returns text \<Rightarrow>
          (let cleanedJsonString = trim (replaceGlobal [''```json\<newline>'', ''```''] [] text)
           in case JSON_parse ext cleanedJsonString of
                Inl e \<Rightarrow> (Inl e, Suc n)
              | Inr d \<Rightarrow>
                  (case generateContent ext (Suc n) (classificationPrompt ext @ resumeText) of
                     Throws e \<Rightarrow> (Inl e, Suc (Suc n))
                   | Returns label \<Rightarrow>
                       (Inr (d \<lparr> profession := Some (trim label) \<rparr>), Suc (Suc n)))))"

definition generateFromManual ::
  "'a portfolioData_gp option \<Rightarrow> js_error + 'a portfolioData_gp" where
  \<comment> \<open>lines 92-95\<close>
  "generateFromManual md =
     (case md of
        None \<Rightarrow> Inl (TypeError ''Cannot set properties of undefined (setting 'profession')'')
      | Some m \<Rightarrow> Inr (m \<lparr> profession := Some ''Default'' \<rparr>))"

definition professionKey :: "string option \<Rightarrow> string" where
  \<comment> \<open>the property key that a string-or-absent value is converted to\<close>
  "professionKey v = (case v of None \<Rightarrow> ''undefined'' | Some k \<Rightarrow> k)"

definition handler_gp_try ::
  "'a portfolioData_gp externals \<Rightarrow> string option \<Rightarrow> 'a deployment_gp \<Rightarrow> 'a event_gp
     \<Rightarrow> (js_error + 'a response_gp) \<times> 'a deployment_gp" where
  \<comment> \<open>the try block of \<open>exports.handler\<close>, lines 19-65\<close>
  "handler_gp_try ext dbError d event =
     (if httpMethod event = Some ''GET'' then (Inr StatusOk, d)
      else if httpMethod event \<noteq> Some ''POST'' then (Inr (Failure 405 ''Method not allowed''), d)
      else
        (case (if truthy (contentType event)
                  \<and> includesStr (orElse (contentType event) []) ''multipart/form-data''
               then (case pdf event of
                       PdfThrows e \<Rightarrow> Inl e
                     | PdfText t \<Rightarrow> Inr \<lparr> body_resumeText = t, body_manualData = None \<rparr>)
               else json event) of
           Inl e \<Rightarrow> (Inl e, d)
         | Inr b \<Rightarrow>
             (case (if truthy (body_resumeText b)
                    then generateFromResume ext (gp_calls d) (orElse (body_resumeText b) [])
                    else (generateFromManual (body_manualData b), gp_calls d)) of
                (Inl e, n) \<Rightarrow> (Inl e, d \<lparr> gp_calls := n \<rparr>)
              | (Inr portfolioData, n) \<Rightarrow>
                  (let selected = selectTheme themes_gp (professionKey (profession portfolioData));
                       r = \<lparr> gp_portfolio_data = portfolioData, gp_selected_theme = selected \<rparr>
                   in case dbError of
                        Some m \<Rightarrow> (Inl (Error (''Supabase error: '' @ m)), d \<lparr> gp_calls := n \<rparr>)
                      | None \<Rightarrow>
                          (Inr (Created r selected),
                           d \<lparr> gp_table := gp_table d @ [r], gp_calls := n \<rparr>)))))"

definition handler_gp ::
  "'a portfolioData_gp externals \<Rightarrow> string option \<Rightarrow> 'a deployment_gp \<Rightarrow> 'a event_gp
     \<Rightarrow> 'a response_gp \<times> 'a deployment_gp" where
  \<comment> \<open>\<open>exports.handler\<close> of generate-portfolio.js, lines 15-73\<close>
  "handler_gp ext dbError d event =
     (case handler_gp_try ext dbError d event of
        (Inr res, d') \<Rightarrow> (res, d')
      | (Inl error, d') \<Rightarrow>
          (Failure 500 (''An internal server error occurred: '' @ message error), d'))"

section \<open>Sample collaborators, for evaluation at concrete inputs\<close>

definition scripted :: "model_reply list \<Rightarrow> nat \<Rightarrow> string \<Rightarrow> model_reply" where
  \<comment> \<open>a model that gives the listed replies, call after call, and then fails\<close>
  "scripted rs n prompt = (if n < length rs then rs ! n else Throws (Error ''fetch failed''))"

definition noInfo :: personalInfo where
  "noInfo = \<lparr> pi_name = None, pi_email = None, pi_phone = None, pi_website = None,
              pi_linkedin = None, pi_github = None \<rparr>"

definition emptyObject :: profile where
  \<comment> \<open>the object \<open>{}\<close>\<close>
  "emptyObject = \<lparr> personalInfo = None, summary = None, skills = None, experience = None,
                   projects = None, education = None \<rparr>"

definition sampleParse :: "string \<Rightarrow> js_error + profile" where
  \<comment> \<open>\<open>JSON.parse\<close> on the few texts the examples use; it rejects every other text\<close>
  "sampleParse s =
     (if s = ''{}'' then Inr emptyObject
      else if s = ''{\"summary\":\"x\"}'' then Inr (emptyObject \<lparr> summary := Some ''x'' \<rparr>)
      else if s = ''{\"personalInfo\":{}}'' then Inr (emptyObject \<lparr> personalInfo := Some noInfo \<rparr>)
      else Inl (SyntaxError ''Unexpected token''))"

definition sampleExt :: "model_reply list \<Rightarrow> profile externals" where
  "sampleExt rs =
     \<lparr> generateContent = scripted rs, JSON_parse = sampleParse,
       extractionPrompt = ''Extract the resume as JSON.'',
       classificationPrompt = ''Classify the profession.'',
       uuidv4 = (\<lambda>k. ''123e4567-e89b-42d3-a456-426614174000'') \<rparr>"

definition sampleExt_gp :: "model_reply list \<Rightarrow> unit portfolioData_gp externals" where
  "sampleExt_gp rs =
     \<lparr> generateContent = scripted rs,
       JSON_parse = (\<lambda>s. if s = ''{}'' then Inr \<lparr> other_keys = (), profession = None \<rparr>
                          else Inl (SyntaxError ''Unexpected token'')),
       extractionPrompt = ''Resume Text: '',
       classificationPrompt = ''Classify: '',
       uuidv4 = (\<lambda>k. ''123e4567-e89b-42d3-a456-426614174000'') \<rparr>"

definition freshServer :: server where
  "freshServer = \<lparr> portfolios = emptyStore, modelCalls = 0, uuidsIssued = 0 \<rparr>"

definition freshDeployment :: deployment where
  "freshDeployment = \<lparr> table = [], calls = 0, ids = 0 \<rparr>"

definition freshDeployment_gp :: "unit deployment_gp" where
  "freshDeployment_gp = \<lparr> gp_table = [], gp_calls = 0 \<rparr>"

definition chefReplies :: "model_reply list" where
  \<comment> \<open>a fenced empty object for the extraction, then a label outside the table\<close>
  "chefReplies = [Returns ''```json\<newline>{}\<newline>```'', Returns '' Chef\<newline>'']"

definition chefEvent :: "unit event_gp" where
  "chefEvent =
     \<lparr> httpMethod = Some ''POST'', contentType = Some ''application/json'',
       pdf = PdfThrows (Error ''Invalid PDF structure''),
       json = Inr \<lparr> body_resumeText = Some ''Ada Lovelace, pastry chef'',
                     body_manualData = None \<rparr> \<rparr>"

definition chefRow :: "unit row_gp" where
  "chefRow =
     \<lparr> gp_portfolio_data = \<lparr> other_keys = (), profession = Some ''Chef'' \<rparr>,
       gp_selected_theme =
         ThemeObject (Professional_Blue \<lparr> buttonStyle := ''bg-indigo-700 hover:bg-indigo-800'' \<rparr>) \<rparr>"

definition aiEvent :: "string \<Rightarrow> event_fn" where
  \<comment> \<open>a POST of type \<open>ai\<close> with the given resume text\<close>
  "aiEvent t =
     \<lparr> event_method = Some ''POST'',
       parsed_body = Inr \<lparr> body_portfolioData = None, body_theme = None,
                            body_profilePictureUrl = None,
                            req_type = Some ''ai'', req_resumeText = Some t \<rparr> \<rparr>"

definition resumeUpload :: "string \<Rightarrow> upload" where
  \<comment> \<open>an upload whose PDF yields the given text, without a photo\<close>
  "resumeUpload t = \<lparr> resume = Some (PdfText (Some t)), photo = None \<rparr>"

definition emptyPdfEvent :: "unit event_gp" where
  \<comment> \<open>a multipart POST whose PDF has no text\<close>
  "emptyPdfEvent =
     \<lparr> httpMethod = Some ''POST'', contentType = Some ''multipart/form-data; boundary=x'',
       pdf = PdfText (Some []), json = Inl (SyntaxError ''Unexpected token'') \<rparr>"

definition editBody :: edit_body where
  \<comment> \<open>a well-formed body that chooses the developer theme\<close>
  "editBody =
     \<lparr> body_portfolioData = Some (emptyObject \<lparr> personalInfo := Some (noInfo \<lparr> pi_github := Some ''octocat'' \<rparr>) \<rparr>),
       body_theme = Some Developer_Dark,
       body_profilePictureUrl = Some ''https://example.org/me.png'' \<rparr>"

definition editedData :: profile where
  "editedData =
     emptyObject \<lparr> personalInfo := Some (noInfo \<lparr> pi_github := Some ''https://github.com/octocat'' \<rparr>) \<rparr>"

definition emptyAiRow :: row where
  \<comment> \<open>what part_000 stores for an \<open>ai\<close> request with empty resume text, the model
      answering \<open>{}\<close> and then \<open>Default\<close>\<close>
  "emptyAiRow =
     \<lparr> share_id = ''123e4567-e89b-42d3-a456-426614174000'', portfolio_data = Some emptyObject,
       profile_picture_url = Some [], selected_theme = Some ''Professional Blue'' \<rparr>"

definition manualEvent :: "unit event_gp" where
  \<comment> \<open>a JSON POST with manual data and no resume text\<close>
  "manualEvent =
     \<lparr> httpMethod = Some ''POST'', contentType = Some ''application/json'',
       pdf = PdfThrows (Error ''Invalid PDF structure''),
       json = Inr \<lparr> body_resumeText = None,
                     body_manualData = Some \<lparr> other_keys = (), profession = Some ''Data Scientist'' \<rparr> \<rparr> \<rparr>"

definition manualRecord :: portfolio where
  \<comment> \<open>what the manual route of server.js stores for \<open>editBody\<close> at time 7\<close>
  "manualRecord =
     \<lparr> data = editedData, theme = ThemeObject Developer_Dark,
       profilePictureUrl = Some ''https://placehold.co/150x150/222/fff?text=P'',
       createdAt = Some 7, updatedAt = None \<rparr>"

definition constructorRecord :: portfolio where
  \<comment> \<open>what an update under the identifier \<open>constructor\<close> stores for \<open>editBody\<close> at time 9\<close>
  "constructorRecord =
     \<lparr> data = editedData, theme = ThemeObject Developer_Dark,
       profilePictureUrl = Some ''https://example.org/me.png'',
       createdAt = None, updatedAt = Some 9 \<rparr>"

definition twoObjects :: string where
  \<comment> \<open>a response with two objects in prose\<close>
  "twoObjects = ''Here {\"a\":1} and {\"b\":2} ok''"

definition proseWithBraces :: string where
  \<comment> \<open>a response whose object is followed by prose that has braces of its own\<close>
  "proseWithBraces = ''Result: {\"summary\":\"x\"} (other {fields} omitted)''"

definition fencedObject :: string where
  "fencedObject = ''```json\<newline>{\"summary\":\"x\"}\<newline>```''"

definition proseObject :: string where
  "proseObject = ''Sure, here it is: {\"summary\":\"x\"} Let me know.''"

section \<open>Template literals\<close>




section \<open>The renderer of netlify/functions/get-portfolio.js\<close>

















section \<open>The portfolio page of server.js\<close>























section \<open>Termination\<close>

lemma firstMatch_nonempty: "firstMatch ps s = Some p \<Longrightarrow> p \<noteq> []"
  by (induction ps) (auto split: if_splits)

termination replaceGlobal
proof (relation "measure (\<lambda>(ps, r, s). length s)", goal_cases)
  case 1
  show ?case by simp
next
  case (2 ps r c cs)
  show ?case by simp
next
  case (3 ps r c cs p)
  then have "p \<noteq> []" by (rule firstMatch_nonempty)
  then show ?case by (cases p) simp_all
qed

section \<open>Properties of the username normalizer\<close>

lemma startsWith_append: "startsWith (p @ s) p"
  by (simp add: startsWith_def)

text \<open>
  Claim C7. The normalizer is idempotent: for every platform tag and every value (a
  string, or an absent value), normalizing the result of a normalization returns it
  unchanged. In particular \<open>("github", "octocat")\<close> gives
  \<open>"https://github.com/octocat"\<close>, and that URL is returned as it is.
\<close>

theorem convertUsernameToUrl_idempotent:
  "convertUsernameToUrl p (Some (convertUsernameToUrl p v)) = convertUsernameToUrl p v
   \<and> convertUsernameToUrl ''github'' (Some ''octocat'') = ''https://github.com/octocat''
   \<and> convertUsernameToUrl ''github'' (Some ''https://github.com/octocat'')
       = ''https://github.com/octocat''"
proof (intro conjI)
  have lk: "startsWith (''https://linkedin.com/in/'' @ u) ''https://''" for u
    using startsWith_append [of "''https://''" "''linkedin.com/in/'' @ u"] by simp
  have gh: "startsWith (''https://github.com/'' @ u) ''https://''" for u
    using startsWith_append [of "''https://''" "''github.com/'' @ u"] by simp
  show "convertUsernameToUrl p (Some (convertUsernameToUrl p v)) = convertUsernameToUrl p v"
  proof (cases v)
    case None
    then show ?thesis by (simp add: convertUsernameToUrl_def)
  next
    case (Some u)
    then show ?thesis
      using lk [of u] gh [of u] by (simp add: convertUsernameToUrl_def)
  qed
  show "convertUsernameToUrl ''github'' (Some ''octocat'') = ''https://github.com/octocat''"
    by (simp add: convertUsernameToUrl_def startsWith_def)
  show "convertUsernameToUrl ''github'' (Some ''https://github.com/octocat'')
          = ''https://github.com/octocat''"
    by (simp add: convertUsernameToUrl_def startsWith_def)
qed


section \<open>Theme lookup\<close>

lemma selectTheme_unlisted:
  "l \<notin> set (map fst tbl) \<Longrightarrow> l \<notin> set objectPrototypeKeys
     \<Longrightarrow> selectTheme tbl l = property tbl ''Default''"
proof -
  assume "l \<notin> set (map fst tbl)" and "l \<notin> set objectPrototypeKeys"
  then have "map_of tbl l = None" and "l \<notin> set objectPrototypeKeys"
    by (simp_all add: map_of_eq_None_iff)
  then have "property tbl l = NoTheme"
    by (simp add: property_def)
  then show ?thesis by (simp add: selectTheme_def)
qed

lemma selectTheme_inherited:
  "l \<in> set objectPrototypeKeys \<Longrightarrow> selectTheme themes l = PrototypeMember l"
  by (auto simp: selectTheme_def property_def themes_def objectPrototypeKeys_def)

lemma property_Default: "property themes ''Default'' = ThemeObject Professional_Blue"
  by (simp add: property_def themes_def)

lemma property_Default_gp:
  "property themes_gp ''Default''
     = ThemeObject (Professional_Blue \<lparr> buttonStyle := ''bg-indigo-700 hover:bg-indigo-800'' \<rparr>)"
  by (simp add: property_def themes_gp_def)

lemma selectTheme_keys:
  "selectTheme themes ''Software Developer'' = ThemeObject Developer_Dark"
  "selectTheme themes ''Graphic Designer'' = ThemeObject Designer_Light"
  "selectTheme themes ''Data Scientist'' = ThemeObject Data_Green"
  "selectTheme themes ''Default'' = ThemeObject Professional_Blue"
  by (simp_all add: selectTheme_def property_def themes_def)

lemma selectTheme_keys_gp:
  "selectTheme themes_gp ''Software Developer'' = ThemeObject Developer_Dark"
  "selectTheme themes_gp ''Graphic Designer'' = ThemeObject Designer_Light"
  "selectTheme themes_gp ''Data Scientist'' = ThemeObject Data_Green"
  "selectTheme themes_gp ''Default''
     = ThemeObject (Professional_Blue \<lparr> buttonStyle := ''bg-indigo-700 hover:bg-indigo-800'' \<rparr>)"
  by (simp_all add: selectTheme_def property_def themes_gp_def)

lemma generateFromResume_profession:
  assumes "generateFromResume ext n t = (Inr pd, n')"
  shows "\<exists>label. generateContent ext (Suc n) (classificationPrompt ext @ t) = Returns label
           \<and> profession pd = Some (trim label)"
  using assms unfolding generateFromResume_def
  by (auto simp: Let_def split: model_reply.splits sum.splits)

lemma generateFromManual_profession:
  "generateFromManual md = Inr pd \<Longrightarrow> profession pd = Some ''Default''"
  unfolding generateFromManual_def by (auto split: option.splits)

lemma handler_gp_created:
  assumes "handler_gp ext dbError d event = (Created r th, d')"
  shows "gp_table d' = gp_table d @ [r] \<and> th = gp_selected_theme r
         \<and> gp_selected_theme r
             = selectTheme themes_gp (professionKey (profession (gp_portfolio_data r)))"
  using assms unfolding handler_gp_def handler_gp_try_def
  by (auto simp: Let_def split: if_splits sum.splits prod.splits option.splits)

lemma chef_run:
  "handler_gp (sampleExt_gp chefReplies) None freshDeployment_gp chefEvent
     = (Created chefRow (gp_selected_theme chefRow), \<lparr> gp_table = [chefRow], gp_calls = 2 \<rparr>)"
  by (simp add: handler_gp_def handler_gp_try_def chefEvent_def chefRow_def chefReplies_def
        sampleExt_gp_def scripted_def freshDeployment_gp_def generateFromResume_def truthy_def
        orElse_def startsWith_def trim_def isWhiteSpace_def selectTheme_def property_def
        themes_gp_def professionKey_def objectPrototypeKeys_def Let_def)

text \<open>
  Claim C1, as stated, fails in two ways. The label \<open>constructor\<close> is not a key of the
  table, yet the lookup returns the member that the table inherits under that name,
  not the Default theme. And the handler of generate-portfolio.js stores the label it
  got as the profession: for the label \<open>Chef\<close> the stored profession is \<open>Chef\<close>, which
  is not a key of the table.
\<close>

theorem theme_lookup_counterexample:
  "selectTheme themes ''constructor'' = PrototypeMember ''constructor''
   \<and> selectTheme themes ''constructor'' \<noteq> property themes ''Default''
   \<and> gp_table (snd (handler_gp (sampleExt_gp chefReplies) None freshDeployment_gp chefEvent))
        = [chefRow]
   \<and> profession (gp_portfolio_data chefRow) = Some ''Chef''
   \<and> ''Chef'' \<notin> set (map fst themes_gp)"
  by (simp add: chef_run)
     (simp add: selectTheme_def property_def themes_def objectPrototypeKeys_def chefRow_def
        themes_gp_def)

text \<open>
  Claim C1, amended. In both tables each of the four keys (the three professions and
  \<open>Default\<close>) is looked up to exactly its entry. Every label that is neither a key of
  the table nor the name of a member inherited from \<open>Object.prototype\<close>, the empty
  label included, is looked up to the table's Default entry. A record that the handler
  of generate-portfolio.js stores carries the theme looked up for its stored
  profession; that profession is the trimmed label of the model on the resume path
  and \<open>Default\<close> on the manual path, so it need not be a key of the table.
\<close>

theorem theme_lookup:
  "selectTheme themes ''Software Developer'' = ThemeObject Developer_Dark
   \<and> selectTheme themes ''Graphic Designer'' = ThemeObject Designer_Light
   \<and> selectTheme themes ''Data Scientist'' = ThemeObject Data_Green
   \<and> selectTheme themes ''Default'' = ThemeObject Professional_Blue
   \<and> selectTheme themes_gp ''Software Developer'' = ThemeObject Developer_Dark
   \<and> selectTheme themes_gp ''Graphic Designer'' = ThemeObject Designer_Light
   \<and> selectTheme themes_gp ''Data Scientist'' = ThemeObject Data_Green
   \<and> selectTheme themes_gp ''Default'' = property themes_gp ''Default''
   \<and> selectTheme themes [] = ThemeObject Professional_Blue
   \<and> selectTheme themes_gp [] = property themes_gp ''Default''
   \<and> (l \<notin> set (map fst themes) \<and> l \<notin> set objectPrototypeKeys
        \<longrightarrow> selectTheme themes l = ThemeObject Professional_Blue)
   \<and> (l \<notin> set (map fst themes_gp) \<and> l \<notin> set objectPrototypeKeys
        \<longrightarrow> selectTheme themes_gp l = property themes_gp ''Default'')
   \<and> (handler_gp ext dbError d event = (Created r th, d')
        \<longrightarrow> gp_table d' = gp_table d @ [r] \<and> th = gp_selected_theme r
            \<and> gp_selected_theme r
                 = selectTheme themes_gp (professionKey (profession (gp_portfolio_data r))))
   \<and> (generateFromResume ext n t = (Inr pd, n')
        \<longrightarrow> (\<exists>label. generateContent ext (Suc n) (classificationPrompt ext @ t) = Returns label
                     \<and> profession pd = Some (trim label)))
   \<and> (generateFromManual md = Inr pd' \<longrightarrow> profession pd' = Some ''Default'')"
proof -
  have e1: "selectTheme themes [] = ThemeObject Professional_Blue"
    by (simp add: selectTheme_def property_def themes_def objectPrototypeKeys_def)
  have e2: "selectTheme themes_gp [] = property themes_gp ''Default''"
    by (simp add: selectTheme_def property_def themes_gp_def objectPrototypeKeys_def)
  have u1: "l \<notin> set (map fst themes) \<and> l \<notin> set objectPrototypeKeys
        \<longrightarrow> selectTheme themes l = ThemeObject Professional_Blue"
    using selectTheme_unlisted [of l themes] property_Default by simp
  have u2: "l \<notin> set (map fst themes_gp) \<and> l \<notin> set objectPrototypeKeys
        \<longrightarrow> selectTheme themes_gp l = property themes_gp ''Default''"
    using selectTheme_unlisted [of l themes_gp] by simp
  have g4: "selectTheme themes_gp ''Default'' = property themes_gp ''Default''"
    by (simp add: selectTheme_keys_gp property_Default_gp)
  show ?thesis
    using e1 e2 u1 u2 g4 selectTheme_keys selectTheme_keys_gp(1-3)
      handler_gp_created [of ext dbError d event r th d']
      generateFromResume_profession [of ext n t pd n']
      generateFromManual_profession [of md pd']
    by blast
qed

theorem theme_lookup_witness:
  "''Chef'' \<notin> set (map fst themes) \<and> ''Chef'' \<notin> set (map fst themes_gp)
   \<and> ''Chef'' \<notin> set objectPrototypeKeys
   \<and> selectTheme themes ''Chef'' = ThemeObject Professional_Blue
   \<and> selectTheme themes_gp ''Chef'' = property themes_gp ''Default''
   \<and> handler_gp (sampleExt_gp chefReplies) None freshDeployment_gp chefEvent
        = (Created chefRow (gp_selected_theme chefRow), \<lparr> gp_table = [chefRow], gp_calls = 2 \<rparr>)
   \<and> gp_selected_theme chefRow
        = selectTheme themes_gp (professionKey (profession (gp_portfolio_data chefRow)))
   \<and> generateFromManual (Some \<lparr> other_keys = (), profession = None \<rparr>)
        = Inr \<lparr> other_keys = (), profession = Some ''Default'' \<rparr>"
proof -
  have k: "''Chef'' \<notin> set (map fst themes) \<and> ''Chef'' \<notin> set (map fst themes_gp)
           \<and> ''Chef'' \<notin> set objectPrototypeKeys"
    by (simp add: themes_def themes_gp_def objectPrototypeKeys_def)
  have m: "generateFromManual (Some \<lparr> other_keys = (), profession = None \<rparr>)
        = Inr \<lparr> other_keys = (), profession = Some ''Default'' \<rparr>"
    by (simp add: generateFromManual_def)
  show ?thesis
    using k m chef_run
      theme_lookup [of "''Chef''" "sampleExt_gp chefReplies" None freshDeployment_gp chefEvent
        chefRow "gp_selected_theme chefRow" "\<lparr> gp_table = [chefRow], gp_calls = 2 \<rparr>"
        0 "[]" "gp_portfolio_data chefRow" 0
        "Some \<lparr> other_keys = (), profession = None \<rparr>"
        "\<lparr> other_keys = (), profession = Some ''Default'' \<rparr>"]
    by simp
qed

section \<open>Profession classifier\<close>

lemma classify_total:
  "\<exists>t. classifyProfessionAndSelectTheme ext n d = (Inr t, Suc n)"
  by (simp add: classifyProfessionAndSelectTheme_def split: model_reply.splits)

lemma classify_throws:
  "generateContent ext n (classificationPrompt ext @ ''\<newline>\<newline>'' @ professionalSummary d) = Throws e
     \<Longrightarrow> classifyProfessionAndSelectTheme ext n d = (Inr (ThemeObject Professional_Blue), Suc n)"
  by (simp add: classifyProfessionAndSelectTheme_def property_Default)

lemma classify_fn_throws:
  "generateContent ext n (classificationPrompt ext @ ''\<newline>\<newline>'' @ professionalSummary d) = Throws e
     \<Longrightarrow> classifyProfessionAndSelectTheme_fn ext n d
           = (Inl (ReferenceError ''themes is not defined''), Suc n)"
  by (simp add: classifyProfessionAndSelectTheme_fn_def)

lemma classify_fn_returns:
  "generateContent ext n (classificationPrompt ext @ ''\<newline>\<newline>'' @ professionalSummary d) = Returns text
     \<Longrightarrow> classifyProfessionAndSelectTheme_fn ext n d = (Inr (selectTheme themes (trim text)), Suc n)"
  by (simp add: classifyProfessionAndSelectTheme_fn_def)

text \<open>
  Claim C2 at a failing input. The model answers the extraction with \<open>{}\<close> and then
  fails. The classifier of server.js returns the Default theme. The classifier of
  src/unnamed/part_000 throws a ReferenceError from its catch block, and the handler of
  that file answers the request with status 500 and stores nothing.
\<close>

theorem classifier_fn_propagates:
  "classifyProfessionAndSelectTheme (sampleExt [Returns ''{}'']) 1 emptyObject
     = (Inr (ThemeObject Professional_Blue), 2)
   \<and> classifyProfessionAndSelectTheme_fn (sampleExt [Returns ''{}'']) 1 emptyObject
     = (Inl (ReferenceError ''themes is not defined''), 2)
   \<and> handler_fn (sampleExt [Returns ''{}'']) None freshDeployment (aiEvent ''cv'')
     = (\<lparr> status = 500, body = ErrorJson ''Internal server error'' \<rparr>,
        \<lparr> table = [], calls = 2, ids = 0 \<rparr>)"
  by (simp add: classifyProfessionAndSelectTheme_def classifyProfessionAndSelectTheme_fn_def
        sampleExt_def scripted_def property_Default handler_fn_def handler_fn_try_def
        aiEvent_def freshDeployment_def orElse_def parseResumeWithAI_fn_def
        parseResumeWithAI_try_def extractJsonText_def cleanResponse_def sampleParse_def trim_def
        isWhiteSpace_def startsWith_def)

section \<open>Resume extractor: failures\<close>

lemma parseResumeWithAI_calls: "snd (parseResumeWithAI ext n t) = Suc n"
  by (simp add: parseResumeWithAI_def split: sum.splits)

lemma parseResumeWithAI_fn_calls: "snd (parseResumeWithAI_fn ext n t) = Suc n"
  by (simp add: parseResumeWithAI_fn_def split: sum.splits)

lemma parseResumeWithAI_fn_invalid:
  assumes "generateContent ext n
             (extractionPrompt ext @ ''\<newline>\<newline>--- RESUME TEXT ---\<newline>\<newline>'' @ t) = Returns text"
    and "JSON_parse ext (extractJsonText text) = Inl e"
  shows "parseResumeWithAI_fn ext n t
           = (Inl (Error ''AI model returned an invalid JSON format.''), Suc n)"
  using assms
  by (simp add: parseResumeWithAI_fn_def parseResumeWithAI_try_def parseResumeWithAI_fn_catch_def)

lemma parseResumeWithAI_invalid:
  assumes "generateContent ext n
             (extractionPrompt ext @ ''\<newline>\<newline>--- RESUME TEXT ---\<newline>\<newline>'' @ t) = Returns text"
    and "JSON_parse ext (extractJsonText text) = Inl e"
  shows "parseResumeWithAI ext n t = (Inl (ReferenceError ''response is not defined''), Suc n)"
  using assms
  by (simp add: parseResumeWithAI_def parseResumeWithAI_try_def parseResumeWithAI_catch_def)

lemma parseResumeWithAI_never_Error:
  "fst (parseResumeWithAI ext n t) \<noteq> Inl (Error m)"
  by (simp add: parseResumeWithAI_def parseResumeWithAI_catch_def split: sum.splits)

lemma generate_from_resume_invalid:
  assumes "resume req = Some (PdfText (Some t))" and "trim t \<noteq> []"
    and "generateContent ext (modelCalls sv)
           (extractionPrompt ext @ ''\<newline>\<newline>--- RESUME TEXT ---\<newline>\<newline>'' @ t) = Returns text"
    and "JSON_parse ext (extractJsonText text) = Inl e"
  shows "generate_from_resume ext now sv req
           = (\<lparr> status = 500, body = ErrorJson
                 ''An unexpected error occurred while generating the portfolio. Please try again.'' \<rparr>,
              sv \<lparr> modelCalls := Suc (modelCalls sv) \<rparr>)"
proof -
  from assms(2) have "t \<noteq> []" by (auto simp: trim_def)
  with assms parseResumeWithAI_invalid [OF assms(3,4)] show ?thesis
    by (simp add: generate_from_resume_def generate_from_resume_try_def startsWith_def)
qed

text \<open>
  Claim C3 at a failing input. The model answers \<open>not json\<close>, which \<open>JSON.parse\<close>
  rejects and which has no brace span. The extractor of src/unnamed/part_000 fails with
  the error \<open>AI model returned an invalid JSON format.\<close> The extractor of server.js
  fails with a ReferenceError instead, raised by its catch block. In both cases the
  model was called once; the route of server.js answers with status 500 and leaves
  the store as it was.
\<close>

theorem extractor_catch_reference_error:
  "parseResumeWithAI_fn (sampleExt [Returns ''not json'']) 0 ''cv''
     = (Inl (Error ''AI model returned an invalid JSON format.''), 1)
   \<and> parseResumeWithAI (sampleExt [Returns ''not json'']) 0 ''cv''
     = (Inl (ReferenceError ''response is not defined''), 1)
   \<and> generate_from_resume (sampleExt [Returns ''not json'']) 7 freshServer (resumeUpload ''cv'')
     = (\<lparr> status = 500, body = ErrorJson
           ''An unexpected error occurred while generating the portfolio. Please try again.'' \<rparr>,
        freshServer \<lparr> modelCalls := 1 \<rparr>)"
proof -
  have g: "generateContent (sampleExt [Returns ''not json'']) 0 p = Returns ''not json''" for p
    by (simp add: sampleExt_def scripted_def)
  have j: "JSON_parse (sampleExt [Returns ''not json'']) (extractJsonText ''not json'')
             = Inl (SyntaxError ''Unexpected token'')"
    by (simp add: sampleExt_def sampleParse_def extractJsonText_def cleanResponse_def trim_def isWhiteSpace_def
          startsWith_def matchBraces_def)
  have t: "trim ''cv'' \<noteq> []"
    by (simp add: trim_def isWhiteSpace_def)
  have m: "modelCalls freshServer = 0" "resume (resumeUpload ''cv'') = Some (PdfText (Some ''cv''))"
    by (simp_all add: freshServer_def resumeUpload_def)
  show ?thesis
    using parseResumeWithAI_fn_invalid [OF g j] parseResumeWithAI_invalid [OF g j]
      generate_from_resume_invalid [of "resumeUpload ''cv''" "''cv''" "sampleExt [Returns ''not json'']"
        freshServer "''not json''" "SyntaxError ''Unexpected token''" 7]
      g j t m
    by simp
qed

section \<open>Empty resume text\<close>

lemma generate_from_resume_empty:
  assumes "resume req = Some (PdfText t)"
    and "t = None \<or> t = Some [] \<or> (\<exists>s. t = Some s \<and> trim s = [])"
  shows "generate_from_resume ext now sv req
           = (\<lparr> status = 400, body = ErrorJson
                 ''Could not extract text from the PDF. The file may be corrupted or scanned as an image.'' \<rparr>,
              sv)"
  using assms
  by (auto simp: generate_from_resume_def generate_from_resume_try_def)

text \<open>
  Claim C5 at failing inputs. With empty extracted text the route of server.js
  answers 400, calls no model and leaves the store alone. The handler of
  generate-portfolio.js, given a multipart request whose PDF has no text, takes the
  manual path without manual data: it answers 500 with the TypeError's message (no
  model call, nothing stored). The handler of src/unnamed/part_000, given an \<open>ai\<close>
  request with empty resume text, calls the model twice and stores a record.
\<close>

theorem empty_resume_text_variants:
  "generate_from_resume (sampleExt []) 7 freshServer (resumeUpload [])
     = (\<lparr> status = 400, body = ErrorJson
           ''Could not extract text from the PDF. The file may be corrupted or scanned as an image.'' \<rparr>,
        freshServer)
   \<and> handler_gp (sampleExt_gp []) None freshDeployment_gp emptyPdfEvent
     = (Failure 500
          ''An internal server error occurred: Cannot set properties of undefined (setting 'profession')'',
        freshDeployment_gp)
   \<and> handler_fn (sampleExt [Returns ''{}'', Returns ''Default'']) None freshDeployment (aiEvent [])
     = (\<lparr> status = 200, body = PortfolioJson ''123e4567-e89b-42d3-a456-426614174000''
            (Some emptyObject) (ThemeObject Professional_Blue) (Some []) \<rparr>,
        \<lparr> table = [emptyAiRow], calls = 2, ids = 1 \<rparr>)"
proof (intro conjI)
  show "generate_from_resume (sampleExt []) 7 freshServer (resumeUpload [])
     = (\<lparr> status = 400, body = ErrorJson
           ''Could not extract text from the PDF. The file may be corrupted or scanned as an image.'' \<rparr>,
        freshServer)"
    by (rule generate_from_resume_empty [of _ "Some []"]) (simp_all add: resumeUpload_def)
  show "handler_gp (sampleExt_gp []) None freshDeployment_gp emptyPdfEvent
     = (Failure 500
          ''An internal server error occurred: Cannot set properties of undefined (setting 'profession')'',
        freshDeployment_gp)"
    by (simp add: handler_gp_def handler_gp_try_def emptyPdfEvent_def truthy_def orElse_def
          startsWith_def generateFromManual_def freshDeployment_gp_def)
  show "handler_fn (sampleExt [Returns ''{}'', Returns ''Default'']) None freshDeployment (aiEvent [])
     = (\<lparr> status = 200, body = PortfolioJson ''123e4567-e89b-42d3-a456-426614174000''
            (Some emptyObject) (ThemeObject Professional_Blue) (Some []) \<rparr>,
        \<lparr> table = [emptyAiRow], calls = 2, ids = 1 \<rparr>)"
    by (simp add: handler_fn_def handler_fn_try_def aiEvent_def freshDeployment_def orElse_def
          parseResumeWithAI_fn_def parseResumeWithAI_try_def sampleExt_def scripted_def
          extractJsonText_def cleanResponse_def sampleParse_def trim_def isWhiteSpace_def startsWith_def
          classifyProfessionAndSelectTheme_fn_def selectTheme_def property_def themes_def
          themeName_def insertRow_def emptyAiRow_def Professional_Blue_def Let_def)
qed

section \<open>Manual assembly\<close>

lemma normalizeLinks_octocat:
  "normalizeLinks (noInfo \<lparr> pi_github := Some ''octocat'' \<rparr>)
     = noInfo \<lparr> pi_github := Some ''https://github.com/octocat'' \<rparr>"
  by (simp add: normalizeLinks_def noInfo_def truthy_def convertUsernameToUrl_def startsWith_def)

lemma create_manual_no_model_call:
  "modelCalls (snd (create_manual_portfolio ext now sv reqBody upl)) = modelCalls sv"
  by (simp add: create_manual_portfolio_def Let_def split: option.splits)

lemma create_manual_stores:
  assumes "reqBody = Some b" and "body_portfolioData b = Some pd" and "personalInfo pd = Some info"
  shows "portfolios (snd (create_manual_portfolio ext now sv reqBody upl))
           = setPortfolio (portfolios sv) (uuidv4 ext (uuidsIssued sv))
               \<lparr> data = pd \<lparr> personalInfo := Some (normalizeLinks info) \<rparr>,
                 theme = themeOfBody (body_theme b),
                 profilePictureUrl = Some (photoUrlOf (normalizeLinks info) upl),
                 createdAt = Some now, updatedAt = None \<rparr>"
  using assms by (simp add: create_manual_portfolio_def Let_def)

lemma handler_fn_manual_no_model_call:
  assumes "parsed_body event = Inr b" and "req_type b = Some ''manual''"
  shows "calls (snd (handler_fn ext dbError d event)) = calls d"
  using assms
  by (auto simp: handler_fn_def handler_fn_try_def insertRow_def Let_def
           split: sum.splits option.splits prod.splits)

lemma handler_gp_manual:
  assumes "httpMethod event = Some ''POST''"
    and "\<not> includesStr (orElse (contentType event) []) ''multipart/form-data''"
    and "json event = Inr b" and "\<not> truthy (body_resumeText b)"
    and "body_manualData b = Some m" and "dbError = None"
  shows "handler_gp ext dbError d event
           = (Created \<lparr> gp_portfolio_data = m \<lparr> profession := Some ''Default'' \<rparr>,
                        gp_selected_theme = property themes_gp ''Default'' \<rparr>
                (property themes_gp ''Default''),
              d \<lparr> gp_table := gp_table d
                    @ [\<lparr> gp_portfolio_data = m \<lparr> profession := Some ''Default'' \<rparr>,
                         gp_selected_theme = property themes_gp ''Default'' \<rparr>] \<rparr>)"
proof -
  have "selectTheme themes_gp ''Default'' = property themes_gp ''Default''"
    by (simp add: selectTheme_keys_gp property_Default_gp)
  with assms show ?thesis
    by (simp add: handler_gp_def handler_gp_try_def generateFromManual_def professionKey_def
          Let_def)
qed

lemma manual_run:
  "create_manual_portfolio (sampleExt []) 7 freshServer (Some editBody) None
     = (\<lparr> status = 200, body = PortfolioJson ''123e4567-e89b-42d3-a456-426614174000''
            (Some editedData) (ThemeObject Developer_Dark)
            (Some ''https://placehold.co/150x150/222/fff?text=P'') \<rparr>,
        \<lparr> portfolios = \<lparr> own = [''123e4567-e89b-42d3-a456-426614174000'' \<mapsto> manualRecord],
                          proto = None \<rparr>,
          modelCalls = 0, uuidsIssued = 1 \<rparr>)"
  by (simp add: create_manual_portfolio_def editBody_def emptyObject_def normalizeLinks_def
        truthy_def convertUsernameToUrl_def startsWith_def
        editedData_def photoUrlOf_def placeholderPhoto_def noInfo_def sampleExt_def
        freshServer_def emptyStore_def setPortfolio_def themeOfBody_def manualRecord_def Let_def)

text \<open>
  Claim C6, as stated, fails on the manual route of server.js: the route stores the
  theme that the request body names. For a body that names the developer theme the
  stored record carries that theme, not the Default theme.
\<close>

theorem manual_theme_counterexample:
  "getPortfolio
     (portfolios (snd (create_manual_portfolio (sampleExt []) 7 freshServer (Some editBody) None)))
     ''123e4567-e89b-42d3-a456-426614174000'' = Stored manualRecord
   \<and> theme manualRecord = ThemeObject Developer_Dark
   \<and> theme manualRecord \<noteq> property themes ''Default''"
  by (simp add: manual_run getPortfolio_def manualRecord_def property_Default
        Developer_Dark_def Professional_Blue_def)

text \<open>
  Claim C6, amended. Manual assembly never calls the external model: the manual
  route of server.js and the \<open>manual\<close> requests of src/unnamed/part_000 leave the
  number of model calls as it was, and so does the manual path of
  generate-portfolio.js. In generate-portfolio.js the stored profession is always
  \<open>Default\<close> and the attached theme is that file's Default theme. The manual route of
  server.js stores the data of the body, with its links normalized, and the theme
  that the body names.
\<close>

theorem manual_assembly:
  "modelCalls (snd (create_manual_portfolio ext now sv reqBody upl)) = modelCalls sv
   \<and> (reqBody = Some b \<and> body_portfolioData b = Some pd \<and> personalInfo pd = Some info
        \<longrightarrow> portfolios (snd (create_manual_portfolio ext now sv reqBody upl))
              = setPortfolio (portfolios sv) (uuidv4 ext (uuidsIssued sv))
                  \<lparr> data = pd \<lparr> personalInfo := Some (normalizeLinks info) \<rparr>,
                    theme = themeOfBody (body_theme b),
                    profilePictureUrl = Some (photoUrlOf (normalizeLinks info) upl),
                    createdAt = Some now, updatedAt = None \<rparr>)
   \<and> (parsed_body ev = Inr fb \<and> req_type fb = Some ''manual''
        \<longrightarrow> calls (snd (handler_fn ext dbError fd ev)) = calls fd)
   \<and> (httpMethod event = Some ''POST''
        \<and> \<not> includesStr (orElse (contentType event) []) ''multipart/form-data''
        \<and> json event = Inr gb \<and> \<not> truthy (body_resumeText gb)
        \<and> body_manualData gb = Some m
        \<longrightarrow> handler_gp gext None gd event
              = (Created \<lparr> gp_portfolio_data = m \<lparr> profession := Some ''Default'' \<rparr>,
                           gp_selected_theme = property themes_gp ''Default'' \<rparr>
                   (property themes_gp ''Default''),
                 gd \<lparr> gp_table := gp_table gd
                        @ [\<lparr> gp_portfolio_data = m \<lparr> profession := Some ''Default'' \<rparr>,
                             gp_selected_theme = property themes_gp ''Default'' \<rparr>] \<rparr>))"
  using create_manual_no_model_call [of ext now sv reqBody upl]
    create_manual_stores [of reqBody b pd info ext now sv upl]
    handler_fn_manual_no_model_call [of ev fb ext dbError fd]
    handler_gp_manual [of event gb m None gext gd]
  by blast

theorem manual_assembly_witness:
  "create_manual_portfolio (sampleExt []) 7 freshServer (Some editBody) None
     = (\<lparr> status = 200, body = PortfolioJson ''123e4567-e89b-42d3-a456-426614174000''
            (Some editedData) (ThemeObject Developer_Dark)
            (Some ''https://placehold.co/150x150/222/fff?text=P'') \<rparr>,
        \<lparr> portfolios = \<lparr> own = [''123e4567-e89b-42d3-a456-426614174000'' \<mapsto> manualRecord],
                          proto = None \<rparr>,
          modelCalls = 0, uuidsIssued = 1 \<rparr>)
   \<and> handler_gp (sampleExt_gp []) None freshDeployment_gp manualEvent
     = (Created \<lparr> gp_portfolio_data = \<lparr> other_keys = (), profession = Some ''Default'' \<rparr>,
                  gp_selected_theme = property themes_gp ''Default'' \<rparr>
          (property themes_gp ''Default''),
        \<lparr> gp_table = [\<lparr> gp_portfolio_data = \<lparr> other_keys = (), profession = Some ''Default'' \<rparr>,
                         gp_selected_theme = property themes_gp ''Default'' \<rparr>],
          gp_calls = 0 \<rparr>)"
proof -
  have h: "httpMethod manualEvent = Some ''POST''
        \<and> \<not> includesStr (orElse (contentType manualEvent) []) ''multipart/form-data''
        \<and> json manualEvent = Inr \<lparr> body_resumeText = None,
              body_manualData = Some \<lparr> other_keys = (), profession = Some ''Data Scientist'' \<rparr> \<rparr>
        \<and> \<not> truthy (body_resumeText \<lparr> body_resumeText = None,
              body_manualData = Some \<lparr> other_keys = (), profession = Some ''Data Scientist'' \<rparr> \<rparr>)"
    by (simp add: manualEvent_def orElse_def startsWith_def truthy_def)
  show ?thesis
    using h manual_run
      manual_assembly [of "sampleExt []" 7 freshServer "Some editBody" None editBody
        "emptyObject \<lparr> personalInfo := Some (noInfo \<lparr> pi_github := Some ''octocat'' \<rparr>) \<rparr>"
        "noInfo \<lparr> pi_github := Some ''octocat'' \<rparr>"
        "aiEvent []" "\<lparr> body_portfolioData = None, body_theme = None,
                            body_profilePictureUrl = None,
                            req_type = Some ''manual'', req_resumeText = None \<rparr>"
        None freshDeployment manualEvent
        "\<lparr> body_resumeText = None,
              body_manualData = Some \<lparr> other_keys = (), profession = Some ''Data Scientist'' \<rparr> \<rparr>"
        "\<lparr> other_keys = (), profession = Some ''Data Scientist'' \<rparr>"
        "sampleExt_gp []" freshDeployment_gp]
    by (simp add: freshDeployment_gp_def)
qed

section \<open>The update route\<close>

lemma update_unknown:
  assumes "getPortfolio (portfolios sv) ident = Falsy"
  shows "update_portfolio now sv ident b
           = (Inr \<lparr> status = 404, body = ErrorJson ''Portfolio not found'' \<rparr>, sv)"
  using assms by (simp add: update_portfolio_def)

lemma update_existing:
  assumes "own (portfolios sv) ident = Some r" and "ident \<noteq> ''__proto__''"
    and "body_portfolioData b = Some pd" and "personalInfo pd = Some info"
  shows "update_portfolio now sv ident b
           = (Inr \<lparr> status = 200, body = UpdatedJson ident \<rparr>,
              sv \<lparr> portfolios := (portfolios sv)
                     \<lparr> own := (own (portfolios sv))
                          (ident \<mapsto> \<lparr> data = pd \<lparr> personalInfo := Some (normalizeLinks info) \<rparr>,
                                       theme = themeOfBody (body_theme b),
                                       profilePictureUrl = body_profilePictureUrl b,
                                       createdAt = createdAt r, updatedAt = Some now \<rparr>) \<rparr> \<rparr>)"
  using assms by (simp add: update_portfolio_def getPortfolio_def setPortfolio_def Let_def)

lemma update_frame:
  assumes "own (portfolios sv) ident = Some r" and "ident \<noteq> ''__proto__''" and "k \<noteq> ident"
  shows "own (portfolios (snd (update_portfolio now sv ident b))) k = own (portfolios sv) k"
    and "proto (portfolios (snd (update_portfolio now sv ident b))) = proto (portfolios sv)"
    and "modelCalls (snd (update_portfolio now sv ident b)) = modelCalls sv"
  using assms
  by (auto simp: update_portfolio_def getPortfolio_def setPortfolio_def Let_def
           split: option.splits)

lemma update_failure_keeps_store:
  "fst (update_portfolio now sv ident b) \<noteq> Inr \<lparr> status = 200, body = UpdatedJson ident \<rparr>
     \<Longrightarrow> snd (update_portfolio now sv ident b) = sv"
  by (auto simp: update_portfolio_def Let_def split: slot.splits option.splits)

text \<open>
  Claim C10 at a failing input. The identifier \<open>constructor\<close> is not stored, but the
  guard of the update route reads the member that the store inherits under that name,
  which is truthy. The route answers 200 and creates a record under \<open>constructor\<close>,
  without a creation time; the store has changed.
\<close>

theorem update_unknown_inherited_name:
  "own (portfolios freshServer) ''constructor'' = None
   \<and> update_portfolio 9 freshServer ''constructor'' editBody
     = (Inr \<lparr> status = 200, body = UpdatedJson ''constructor'' \<rparr>,
        \<lparr> portfolios = \<lparr> own = [''constructor'' \<mapsto> constructorRecord], proto = None \<rparr>,
          modelCalls = 0, uuidsIssued = 0 \<rparr>)
   \<and> snd (update_portfolio 9 freshServer ''constructor'' editBody) \<noteq> freshServer"
proof -
  have run: "update_portfolio 9 freshServer ''constructor'' editBody
     = (Inr \<lparr> status = 200, body = UpdatedJson ''constructor'' \<rparr>,
        \<lparr> portfolios = \<lparr> own = [''constructor'' \<mapsto> constructorRecord], proto = None \<rparr>,
          modelCalls = 0, uuidsIssued = 0 \<rparr>)"
    by (simp add: update_portfolio_def freshServer_def emptyStore_def getPortfolio_def
          objectPrototypeKeys_def editBody_def emptyObject_def normalizeLinks_def truthy_def
          convertUsernameToUrl_def startsWith_def noInfo_def editedData_def setPortfolio_def
          themeOfBody_def constructorRecord_def Let_def)
  have before: "own (portfolios freshServer) ''constructor'' = None"
    by (simp add: freshServer_def emptyStore_def)
  have after: "own (portfolios (snd (update_portfolio 9 freshServer ''constructor'' editBody)))
                 ''constructor'' = Some constructorRecord"
    by (simp add: run)
  have changed: "snd (update_portfolio 9 freshServer ''constructor'' editBody) \<noteq> freshServer"
  proof
    assume "snd (update_portfolio 9 freshServer ''constructor'' editBody) = freshServer"
    then have "own (portfolios (snd (update_portfolio 9 freshServer ''constructor'' editBody)))
                 ''constructor'' = own (portfolios freshServer) ''constructor''"
      by (rule arg_cong)
    with before after show False by simp
  qed
  from before run changed show ?thesis by (intro conjI)
qed

section \<open>Resume extractor: what reaches the JSON parser\<close>

lemma firstMatch_other_head:
  "\<forall>p \<in> set ps. p \<noteq> [] \<longrightarrow> hd p \<noteq> x \<Longrightarrow> firstMatch ps (x # xs) = None"
proof (induction ps)
  case Nil
  then show ?case by simp
next
  case (Cons p ps)
  then have "p \<noteq> [] \<longrightarrow> hd p \<noteq> x" by simp
  then have "\<not> (p \<noteq> [] \<and> startsWith (x # xs) p)"
    by (cases p) (auto simp: startsWith_def)
  with Cons show ?case by simp
qed

lemma replaceGlobal_skip:
  "\<forall>p \<in> set ps. p \<noteq> [] \<longrightarrow> hd p \<notin> set s \<Longrightarrow> replaceGlobal ps r (s @ t) = s @ replaceGlobal ps r t"
proof (induction s)
  case Nil
  then show ?case by simp
next
  case (Cons x s)
  then have "firstMatch ps (x # (s @ t)) = None"
    by (intro firstMatch_other_head) auto
  moreover from Cons have "replaceGlobal ps r (s @ t) = s @ replaceGlobal ps r t"
    by auto
  ultimately show ?case by simp
qed

lemma replaceGlobal_no_backtick:
  assumes "CHR 0x60 \<notin> set s"
  shows "replaceGlobal [''```json''] r (s @ t) = s @ replaceGlobal [''```json''] r t"
    and "replaceGlobal [''```''] r (s @ t) = s @ replaceGlobal [''```''] r t"
  using assms by (simp_all add: replaceGlobal_skip)

lemma dropWhile_append_stop:
  "ys \<noteq> [] \<Longrightarrow> \<not> P (hd ys) \<Longrightarrow> dropWhile P (xs @ ys) = dropWhile P xs @ ys"
  by (induction xs) (auto simp: neq_Nil_conv)

lemma trim_around:
  assumes "s \<noteq> []" and "\<not> isWhiteSpace (hd s)" and "\<not> isWhiteSpace (last s)"
  shows "trim (a @ s @ b) = dropWhile isWhiteSpace a @ s @ rev (dropWhile isWhiteSpace (rev b))"
proof -
  have "dropWhile isWhiteSpace (a @ (s @ b)) = dropWhile isWhiteSpace a @ s @ b"
    using assms(1,2) by (intro dropWhile_append_stop) (auto simp: neq_Nil_conv)
  moreover have "dropWhile isWhiteSpace (rev b @ (rev s @ rev (dropWhile isWhiteSpace a)))
                   = dropWhile isWhiteSpace (rev b) @ rev s @ rev (dropWhile isWhiteSpace a)"
    using assms(1,3) by (intro dropWhile_append_stop) (auto simp: hd_rev hd_append)
  ultimately show ?thesis by (simp add: trim_def)
qed

lemma dropWhile_upto:
  "x \<notin> set xs \<Longrightarrow> dropWhile (\<lambda>c. c \<noteq> x) (xs @ x # ys) = x # ys"
  by (induction xs) auto

lemma matchBraces_span:
  assumes "CHR ''{'' \<notin> set pre" and "CHR ''}'' \<notin> set post"
  shows "matchBraces (pre @ ''{'' @ mid @ ''}'' @ post) = Some (''{'' @ mid @ ''}'')"
proof -
  have a: "dropWhile (\<lambda>c. c \<noteq> CHR ''{'') (pre @ ''{'' @ mid @ ''}'' @ post)
             = CHR ''{'' # (mid @ ''}'' @ post)"
    using dropWhile_upto [OF assms(1), of "mid @ ''}'' @ post"] by simp
  have b: "dropWhile (\<lambda>c. c \<noteq> CHR ''}'') (rev post @ CHR ''}'' # rev mid) = CHR ''}'' # rev mid"
    using dropWhile_upto [of "CHR ''}''" "rev post" "rev mid"] assms(2) by simp
  show ?thesis
    unfolding matchBraces_def a by (simp add: b)
qed

lemma extractJsonText_span:
  assumes "\<not> startsWith (cleanResponse text) ''{''"
    and "cleanResponse text = pre @ ''{'' @ mid @ ''}'' @ post"
    and "CHR ''{'' \<notin> set pre" and "CHR ''}'' \<notin> set post"
  shows "extractJsonText text = ''{'' @ mid @ ''}''"
  using assms(1) matchBraces_span [OF assms(3,4), of mid]
  by (simp add: extractJsonText_def assms(2))

lemma extractJsonText_fenced:
  assumes "CHR 0x60 \<notin> set obj" and "startsWith obj ''{''" and "\<not> isWhiteSpace (last obj)"
  shows "extractJsonText (''```json\<newline>'' @ obj @ ''\<newline>```'') = obj"
proof -
  from assms(2) have ne: "obj \<noteq> []" and hd: "hd obj = CHR ''{''"
    by (cases obj; simp add: startsWith_def)+
  have nb: "CHR 0x60 \<notin> set (''\<newline>'' @ obj @ ''\<newline>'')"
    using assms(1) by simp
  have "replaceGlobal [''```json''] [] (''```json\<newline>'' @ obj @ ''\<newline>```'')
          = replaceGlobal [''```json''] [] ((''\<newline>'' @ obj @ ''\<newline>'') @ ''```'')"
    by (simp add: startsWith_def)
  also have "\<dots> = (''\<newline>'' @ obj @ ''\<newline>'') @ replaceGlobal [''```json''] [] ''```''"
    using nb by (rule replaceGlobal_no_backtick)
  also have "\<dots> = (''\<newline>'' @ obj @ ''\<newline>'') @ ''```''"
    by (simp add: startsWith_def)
  finally have s1: "replaceGlobal [''```json''] [] (''```json\<newline>'' @ obj @ ''\<newline>```'')
          = (''\<newline>'' @ obj @ ''\<newline>'') @ ''```''" .
  have s2: "replaceGlobal [''```''] [] ((''\<newline>'' @ obj @ ''\<newline>'') @ ''```'')
          = ''\<newline>'' @ obj @ ''\<newline>''"
    using replaceGlobal_no_backtick(2) [OF nb, of "[]" "''```''"] by (simp add: startsWith_def)
  have "trim (''\<newline>'' @ obj @ ''\<newline>'') = obj"
    using trim_around [OF ne _ assms(3), of "''\<newline>''" "''\<newline>''"] hd
    by (simp add: isWhiteSpace_def)
  then have "cleanResponse (''```json\<newline>'' @ obj @ ''\<newline>```'') = obj"
    unfolding cleanResponse_def s1 s2 .
  then show ?thesis
    using assms(2) by (simp add: extractJsonText_def)
qed

lemma extractJsonText_prose:
  assumes "CHR 0x60 \<notin> set (pre @ mid @ post)"
    and "CHR ''{'' \<notin> set pre" and "CHR ''}'' \<notin> set post"
    and "trim pre \<noteq> []"
  shows "extractJsonText (pre @ ''{'' @ mid @ ''}'' @ post) = ''{'' @ mid @ ''}''"
proof -
  let ?obj = "''{'' @ mid @ ''}''"
  let ?pre = "dropWhile isWhiteSpace pre"
  let ?post = "rev (dropWhile isWhiteSpace (rev post))"
  have nb: "CHR 0x60 \<notin> set (pre @ ?obj @ post)"
    using assms(1) by simp
  have r1: "replaceGlobal [''```json''] [] (pre @ ?obj @ post) = pre @ ?obj @ post"
    using replaceGlobal_no_backtick(1) [OF nb, of "[]" "[]"] by simp
  have r2: "replaceGlobal [''```''] [] (pre @ ?obj @ post) = pre @ ?obj @ post"
    using replaceGlobal_no_backtick(2) [OF nb, of "[]" "[]"] by simp
  have "trim (pre @ ?obj @ post) = ?pre @ ?obj @ ?post"
    by (rule trim_around) (simp_all add: isWhiteSpace_def)
  with r1 r2 have c: "cleanResponse (pre @ ''{'' @ mid @ ''}'' @ post) = ?pre @ ''{'' @ mid @ ''}'' @ ?post"
    by (simp add: cleanResponse_def)
  have pne: "?pre \<noteq> []"
  proof
    assume "?pre = []"
    then have "trim pre = []" by (simp only: trim_def rev.simps dropWhile.simps)
    with assms(4) show False by simp
  qed
  have p1: "CHR ''{'' \<notin> set ?pre"
    using assms(2) set_dropWhileD [of "CHR ''{''" isWhiteSpace pre] by blast
  have p2: "CHR ''}'' \<notin> set ?post"
    using assms(3) set_dropWhileD [of "CHR ''}''" isWhiteSpace "rev post"] by auto
  from pne p1 have "hd ?pre \<noteq> CHR ''{''"
    by (cases ?pre) auto
  with pne have ns: "\<not> startsWith (?pre @ ''{'' @ mid @ ''}'' @ ?post) ''{''"
    by (cases ?pre) (auto simp: startsWith_def)
  show ?thesis
    by (rule extractJsonText_span [where pre = ?pre and post = ?post])
       (simp_all only: c ns p1 p2 not_False_eq_True)
qed

text \<open>
  Claim C4, as stated, fails. The span taken from a response that does not start with
  \<open>{\<close> runs from the first \<open>{\<close> to the last \<open>}\<close> of the text: for a response with two
  objects it is the text from the first object through the second, not the first
  balanced span. And an object that is followed by prose with braces of its own is
  not recovered: the text handed to the parser is rejected, although the object alone
  parses.
\<close>

theorem extractor_span_counterexample:
  "extractJsonText twoObjects = ''{\"a\":1} and {\"b\":2}''
   \<and> spec_firstBalancedSpan (cleanResponse twoObjects) = Some ''{\"a\":1}''
   \<and> extractJsonText proseWithBraces = ''{\"summary\":\"x\"} (other {fields}''
   \<and> sampleParse ''{\"summary\":\"x\"}'' = Inr (emptyObject \<lparr> summary := Some ''x'' \<rparr>)
   \<and> parseResumeWithAI_fn (sampleExt [Returns proseWithBraces]) 0 ''cv''
        = (Inl (Error ''AI model returned an invalid JSON format.''), 1)"
  by (simp add: extractJsonText_def cleanResponse_def twoObjects_def proseWithBraces_def
        trim_def isWhiteSpace_def startsWith_def matchBraces_def spec_firstBalancedSpan_def
        sampleParse_def parseResumeWithAI_fn_def parseResumeWithAI_try_def sampleExt_def
        scripted_def parseResumeWithAI_fn_catch_def)

text \<open>
  Claim C4, amended. For every model response, the extractor of server.js and of
  src/unnamed/part_000 removes every \<open>```json\<close> marker, then every \<open>```\<close> marker, and
  trims. If the cleaned text starts with \<open>{\<close> it is parsed as it is. Otherwise, if a
  \<open>}\<close> follows its first \<open>{\<close>, the span from the first \<open>{\<close> to the last \<open>}\<close> of the text
  is parsed (a greedy match, not a balanced one); if there is no such span the cleaned
  text is parsed as it is. The result of the extractor is the result of the strict
  parse of that text. In particular an object without backticks that is wrapped in a
  \<open>```json\<close> fence reaches the parser unchanged, and so does an object embedded in
  prose when the prose in front of it is not blank and has no \<open>{\<close>, the prose behind
  it has no \<open>}\<close>, and neither contains a backtick.
\<close>

theorem extractor_parsing:
  "(startsWith (cleanResponse resp) ''{'' \<longrightarrow> extractJsonText resp = cleanResponse resp)
   \<and> (\<not> startsWith (cleanResponse resp) ''{''
        \<and> cleanResponse resp = pre @ ''{'' @ mid @ ''}'' @ post
        \<and> CHR ''{'' \<notin> set pre \<and> CHR ''}'' \<notin> set post
        \<longrightarrow> extractJsonText resp = ''{'' @ mid @ ''}'')
   \<and> (matchBraces (cleanResponse resp) = None \<longrightarrow> extractJsonText resp = cleanResponse resp)
   \<and> (CHR 0x60 \<notin> set obj \<and> startsWith obj ''{'' \<and> \<not> isWhiteSpace (last obj)
        \<longrightarrow> extractJsonText (''```json\<newline>'' @ obj @ ''\<newline>```'') = obj)
   \<and> (CHR 0x60 \<notin> set (before @ inner @ after)
        \<and> CHR ''{'' \<notin> set before \<and> CHR ''}'' \<notin> set after \<and> trim before \<noteq> []
        \<longrightarrow> extractJsonText (before @ ''{'' @ inner @ ''}'' @ after) = ''{'' @ inner @ ''}'')
   \<and> (generateContent ext n
          (extractionPrompt ext @ ''\<newline>\<newline>--- RESUME TEXT ---\<newline>\<newline>'' @ t) = Returns r
        \<and> JSON_parse ext (extractJsonText r) = Inr v
        \<longrightarrow> parseResumeWithAI ext n t = (Inr v, Suc n)
            \<and> parseResumeWithAI_fn ext n t = (Inr v, Suc n))"
proof (intro conjI impI)
  show "extractJsonText resp = cleanResponse resp" if "startsWith (cleanResponse resp) ''{''"
    using that by (simp add: extractJsonText_def Let_def)
  show "extractJsonText resp = ''{'' @ mid @ ''}''"
    if "\<not> startsWith (cleanResponse resp) ''{''
        \<and> cleanResponse resp = pre @ ''{'' @ mid @ ''}'' @ post
        \<and> CHR ''{'' \<notin> set pre \<and> CHR ''}'' \<notin> set post"
    using that extractJsonText_span [of resp pre mid post] by blast
  show "extractJsonText resp = cleanResponse resp" if "matchBraces (cleanResponse resp) = None"
    using that by (simp add: extractJsonText_def Let_def)
  show "extractJsonText (''```json\<newline>'' @ obj @ ''\<newline>```'') = obj"
    if "CHR 0x60 \<notin> set obj \<and> startsWith obj ''{'' \<and> \<not> isWhiteSpace (last obj)"
    using that extractJsonText_fenced [of obj] by blast
  show "extractJsonText (before @ ''{'' @ inner @ ''}'' @ after) = ''{'' @ inner @ ''}''"
    if "CHR 0x60 \<notin> set (before @ inner @ after)
        \<and> CHR ''{'' \<notin> set before \<and> CHR ''}'' \<notin> set after \<and> trim before \<noteq> []"
    using that extractJsonText_prose [of before inner after] by blast
  assume a: "generateContent ext n
          (extractionPrompt ext @ ''\<newline>\<newline>--- RESUME TEXT ---\<newline>\<newline>'' @ t) = Returns r
        \<and> JSON_parse ext (extractJsonText r) = Inr v"
  then show "parseResumeWithAI ext n t = (Inr v, Suc n)"
    by (simp add: parseResumeWithAI_def parseResumeWithAI_try_def)
  from a show "parseResumeWithAI_fn ext n t = (Inr v, Suc n)"
    by (simp add: parseResumeWithAI_fn_def parseResumeWithAI_try_def)
qed

theorem extractor_parsing_witness:
  "cleanResponse proseObject = proseObject
   \<and> \<not> startsWith (cleanResponse proseObject) ''{''
   \<and> extractJsonText proseObject = ''{\"summary\":\"x\"}''
   \<and> extractJsonText fencedObject = ''{\"summary\":\"x\"}''
   \<and> startsWith (cleanResponse fencedObject) ''{''
   \<and> matchBraces (cleanResponse ''not json'') = None
   \<and> extractJsonText ''not json'' = ''not json''
   \<and> parseResumeWithAI (sampleExt [Returns fencedObject]) 0 ''cv''
        = (Inr (emptyObject \<lparr> summary := Some ''x'' \<rparr>), 1)
   \<and> parseResumeWithAI_fn (sampleExt [Returns fencedObject]) 0 ''cv''
        = (Inr (emptyObject \<lparr> summary := Some ''x'' \<rparr>), 1)"
proof -
  have c1: "cleanResponse proseObject = ''Sure, here it is: '' @ ''{'' @ ''\"summary\":\"x\"'' @ ''}'' @ '' Let me know.''"
    by (simp add: cleanResponse_def proseObject_def trim_def isWhiteSpace_def startsWith_def)
  have c2: "proseObject = ''Sure, here it is: '' @ ''{'' @ ''\"summary\":\"x\"'' @ ''}'' @ '' Let me know.''"
    by (simp add: proseObject_def)
  have c3: "fencedObject = ''```json\<newline>'' @ ''{\"summary\":\"x\"}'' @ ''\<newline>```''"
    by (simp add: fencedObject_def)
  have c4: "cleanResponse fencedObject = ''{\"summary\":\"x\"}''"
    by (simp add: cleanResponse_def fencedObject_def trim_def isWhiteSpace_def startsWith_def)
  have c5: "cleanResponse ''not json'' = ''not json''"
    by (simp add: cleanResponse_def trim_def isWhiteSpace_def startsWith_def)
  have h1: "\<not> startsWith (cleanResponse proseObject) ''{''
            \<and> CHR ''{'' \<notin> set ''Sure, here it is: '' \<and> CHR ''}'' \<notin> set '' Let me know.''"
    by (simp add: c1 startsWith_def)
  have h2: "CHR 0x60 \<notin> set ''{\"summary\":\"x\"}'' \<and> startsWith ''{\"summary\":\"x\"}'' ''{''
            \<and> \<not> isWhiteSpace (last ''{\"summary\":\"x\"}'')"
    by (simp add: startsWith_def isWhiteSpace_def)
  have h3: "CHR 0x60 \<notin> set (''Sure, here it is: '' @ ''\"summary\":\"x\"'' @ '' Let me know.'')
            \<and> trim ''Sure, here it is: '' \<noteq> []"
    by (simp add: trim_def isWhiteSpace_def)
  have h4: "matchBraces (cleanResponse ''not json'') = None"
    by (simp add: c5 matchBraces_def)
  have h5: "generateContent (sampleExt [Returns fencedObject]) 0
              (extractionPrompt (sampleExt [Returns fencedObject])
                 @ ''\<newline>\<newline>--- RESUME TEXT ---\<newline>\<newline>'' @ ''cv'') = Returns fencedObject"
    by (simp add: sampleExt_def scripted_def)
  have h6: "JSON_parse (sampleExt [Returns fencedObject]) ''{\"summary\":\"x\"}''
              = Inr (emptyObject \<lparr> summary := Some ''x'' \<rparr>)"
    by (simp add: sampleExt_def sampleParse_def)
  note w1 = extractor_parsing [of proseObject "''Sure, here it is: ''" "''\"summary\":\"x\"''"
      "'' Let me know.''" "''{\"summary\":\"x\"}''" "''Sure, here it is: ''" "''\"summary\":\"x\"''"
      "'' Let me know.''" "sampleExt [Returns fencedObject]" 0 "''cv''" fencedObject
      "emptyObject \<lparr> summary := Some ''x'' \<rparr>"]
  note w2 = extractor_parsing [of fencedObject "[]" "[]" "[]" "''{\"summary\":\"x\"}''"
      "''Sure, here it is: ''" "''\"summary\":\"x\"''" "'' Let me know.''"
      "sampleExt [Returns fencedObject]" 0 "''cv''" fencedObject
      "emptyObject \<lparr> summary := Some ''x'' \<rparr>"]
  note w3 = extractor_parsing [of "''not json''" "[]" "[]" "[]" "''{\"summary\":\"x\"}''"
      "''Sure, here it is: ''" "''\"summary\":\"x\"''" "'' Let me know.''"
      "sampleExt [Returns fencedObject]" 0 "''cv''" fencedObject
      "emptyObject \<lparr> summary := Some ''x'' \<rparr>"]
  have e1: "extractJsonText proseObject = ''{\"summary\":\"x\"}''"
    using w1 h1 c1 by simp
  have e2: "extractJsonText fencedObject = ''{\"summary\":\"x\"}''"
    using w1 h2 c3 by simp
  have e3: "extractJsonText ''not json'' = ''not json''"
    using w3 h4 c5 by simp
  have e4: "parseResumeWithAI (sampleExt [Returns fencedObject]) 0 ''cv''
              = (Inr (emptyObject \<lparr> summary := Some ''x'' \<rparr>), 1)
            \<and> parseResumeWithAI_fn (sampleExt [Returns fencedObject]) 0 ''cv''
              = (Inr (emptyObject \<lparr> summary := Some ''x'' \<rparr>), 1)"
    using w1 h5 h6 e2 by simp
  have s4: "startsWith (cleanResponse fencedObject) ''{''"
    by (simp add: c4 startsWith_def)
  from c1 c2 h1 e1 e2 s4 h4 e3 e4 show ?thesis by simp
qed

section \<open>Rendering a record without projects\<close>














end
